theory Spec2Isabelle
  imports Main
begin

section \<open>Errors\<close>

text \<open>
  The JSON payload struct of a Bitbucket error (\<open>bitbucketAPIError\<close>). It is declared
  first because it is one of the values a Go \<open>error\<close> can hold here.
\<close>

record bitbucketAPIError =
  Message :: string
  Type :: string
  StatusCode :: int
  Endpoint :: string

text \<open>
  A Go \<open>error\<close> value. \<open>nil\<close> is \<open>None\<close> of \<open>error option\<close>. \<open>Err\<close> is an error
  made by \<open>errors.New\<close>, \<open>fmt.Errorf\<close> or by a library (its message), \<open>APIError\<close>
  is \<open>error(apiError)\<close>, \<open>Wrap\<close> is \<open>errors.Wrap(err, msg)\<close>. The two JSON errors are
  what \<open>json.Unmarshal\<close> returns.
\<close>

datatype error =
    Err string
  | APIError bitbucketAPIError
  | Wrap error string
  | JSONSyntaxError
  | JSONTypeError

section \<open>Formatting\<close>

fun digits :: "nat \<Rightarrow> string" where
  "digits n = (if n < 10 then [''0123456789'' ! n]
               else digits (n div 10) @ [''0123456789'' ! (n mod 10)])"

declare digits.simps [simp del]

text \<open>The verb \<open>%d\<close> of \<open>fmt.Sprintf\<close>.\<close>

definition fmt_d :: "int \<Rightarrow> string" where
  "fmt_d i = (if i < 0 then CHR ''-'' # digits (nat (- i)) else digits (nat i))"

text \<open>\<open>strings.Join\<close>.\<close>

fun Join :: "string list \<Rightarrow> string \<Rightarrow> string" where
  "Join [] sep = []"
| "Join [x] sep = x"
| "Join (x # y # ys) sep = x @ sep @ Join (y # ys) sep"

section \<open>The server configuration and its validation (cmd/server.go)\<close>

record Config =
  LogLevel :: string
  GithubUser :: string
  GithubToken :: string
  GitlabUser :: string
  GitlabToken :: string
  EnvDetectionWorkflow :: string
  GitflowEnvBranchMapping :: "string list"
  RequireExternalApproval :: bool
  ApprovalURL :: string

definition GHUserFlag :: string where "GHUserFlag = ''gh-user''"
definition GHTokenFlag :: string where "GHTokenFlag = ''gh-token''"
definition GitlabUserFlag :: string where "GitlabUserFlag = ''gitlab-user''"
definition GitlabTokenFlag :: string where "GitlabTokenFlag = ''gitlab-token''"
definition RequireApprovalFlag :: string where "RequireApprovalFlag = ''require-approval''"
definition ApprovalURLFlag :: string where "ApprovalURLFlag = ''approval-url''"

definition vcsErr :: error where
  "vcsErr = Err (''--'' @ GHUserFlag @ ''/--'' @ GHTokenFlag @ '' or --'' @ GitlabUserFlag
                 @ ''/--'' @ GitlabTokenFlag @ '' must be set'')"

text \<open>
  \<open>len(sep.FindAllStringIndex(val, -1))\<close> for the pattern \<open>:\<close>: the number of colons
  in \<open>val\<close>.
\<close>

definition count_sep :: "string \<Rightarrow> nat" where
  "count_sep val = length (filter (\<lambda>c. c = CHR '':'') val)"

text \<open>The loop over \<open>config.GitflowEnvBranchMapping\<close>: the first bad entry is reported.\<close>

fun check_mapping :: "string list \<Rightarrow> error option" where
  "check_mapping [] = None"
| "check_mapping (val # vals) =
     (if count_sep val \<noteq> 1
      then Some (Err (''Invalid GitflowEnvBranchMapping argument '' @ val @ ''. Must be env:branch''))
      else check_mapping vals)"

definition validate :: "Config \<Rightarrow> error option" where
  "validate config =
     (let logLevel = LogLevel config in
      if logLevel \<noteq> ''debug'' \<and> logLevel \<noteq> ''info'' \<and> logLevel \<noteq> ''warn'' \<and> logLevel \<noteq> ''error''
      then Some (Err ''invalid log level: not one of debug, info, warn, error'')
      else if GithubUser config \<noteq> '''' \<and> GithubToken config = '''' \<or>
              GithubToken config \<noteq> '''' \<and> GithubUser config = ''''
      then Some vcsErr
      else if GitlabUser config \<noteq> '''' \<and> GitlabToken config = '''' \<or>
              GitlabToken config \<noteq> '''' \<and> GitlabUser config = ''''
      then Some vcsErr
      else if GithubUser config = '''' \<and> GitlabUser config = ''''
      then Some vcsErr
      else let envDW = EnvDetectionWorkflow config in
      if envDW \<noteq> ''modifiedfiles'' \<and> envDW \<noteq> ''gitflow''
      then Some (Err ''invalid env detection workflow: not one of modifiedfiles, gitflow'')
      else case check_mapping (GitflowEnvBranchMapping config) of
        Some err \<Rightarrow> Some err
      | None \<Rightarrow>
          if RequireExternalApproval config \<and> ApprovalURL config = ''''
          then Some (Err (''--'' @ RequireApprovalFlag @ '' requires --'' @ ApprovalURLFlag @ '' to be set''))
          else None)"

text \<open>
  The configurations whose fields other than the four VCS credentials pass every check
  of \<open>validate\<close>.
\<close>

definition other_fields_valid :: "Config \<Rightarrow> bool" where
  "other_fields_valid config =
     (LogLevel config \<in> {''debug'', ''info'', ''warn'', ''error''} \<and>
      EnvDetectionWorkflow config \<in> {''modifiedfiles'', ''gitflow''} \<and>
      list_all (\<lambda>val. count_sep val = 1) (GitflowEnvBranchMapping config) \<and>
      (RequireExternalApproval config \<longrightarrow> ApprovalURL config \<noteq> ''''))"

text \<open>The three combinations the comment in \<open>validate\<close> lists.\<close>

definition github_only :: "Config \<Rightarrow> bool" where
  "github_only config =
     (GithubUser config \<noteq> '''' \<and> GithubToken config \<noteq> '''' \<and>
      GitlabUser config = '''' \<and> GitlabToken config = '''')"

definition gitlab_only :: "Config \<Rightarrow> bool" where
  "gitlab_only config =
     (GitlabUser config \<noteq> '''' \<and> GitlabToken config \<noteq> '''' \<and>
      GithubUser config = '''' \<and> GithubToken config = '''')"

definition all_four :: "Config \<Rightarrow> bool" where
  "all_four config =
     (GithubUser config \<noteq> '''' \<and> GithubToken config \<noteq> '''' \<and>
      GitlabUser config \<noteq> '''' \<and> GitlabToken config \<noteq> '''')"

definition half_pair :: "Config \<Rightarrow> bool" where
  "half_pair config =
     ((GithubUser config = '''') \<noteq> (GithubToken config = '''') \<or>
      (GitlabUser config = '''') \<noteq> (GitlabToken config = ''''))"

definition none_set :: "Config \<Rightarrow> bool" where
  "none_set config =
     (GithubUser config = '''' \<and> GithubToken config = '''' \<and>
      GitlabUser config = '''' \<and> GitlabToken config = '''')"

definition config_github :: Config where
  "config_github =
     \<lparr>LogLevel = ''info'', GithubUser = ''bot'', GithubToken = ''t0ken'',
      GitlabUser = '''', GitlabToken = '''', EnvDetectionWorkflow = ''gitflow'',
      GitflowEnvBranchMapping = [''prod:master'', ''staging:develop''],
      RequireExternalApproval = True, ApprovalURL = ''http://approval.local/check''\<rparr>"

definition config_token_missing :: Config where
  "config_token_missing =
     \<lparr>LogLevel = ''warn'', GithubUser = ''bot'', GithubToken = '''',
      GitlabUser = '''', GitlabToken = '''', EnvDetectionWorkflow = ''modifiedfiles'',
      GitflowEnvBranchMapping = [], RequireExternalApproval = False, ApprovalURL = ''''\<rparr>"

section \<open>JSON values and \<open>json.Unmarshal\<close>\<close>

text \<open>
  A parsed JSON text. \<open>JInt\<close> is a number written as an integer, \<open>JFloat\<close> a number
  written with a fraction or an exponent (kept as text). The members of an object are
  in the order of the text, duplicates included.
\<close>

datatype json =
    JNull
  | JBool bool
  | JInt int
  | JFloat string
  | JString string
  | JArray "json list"
  | JObject "(string \<times> json) list"

text \<open>
  What \<open>json.Unmarshal\<close> does with one value for one struct field: store it, leave the
  field as it is (\<open>null\<close>), or report a type mismatch, skip the field and go on.
\<close>

datatype 'a stored = Put 'a | Keep | Mismatch

fun into_string :: "json \<Rightarrow> string stored" where
  "into_string (JString s) = Put s"
| "into_string JNull = Keep"
| "into_string _ = Mismatch"

text \<open>A Go \<open>int\<close> has 64 bits on the platform the service is built for.\<close>

fun into_int :: "json \<Rightarrow> int stored" where
  "into_int (JInt n) = (if - (2 ^ 63) \<le> n \<and> n < 2 ^ 63 then Put n else Mismatch)"
| "into_int JNull = Keep"
| "into_int _ = Mismatch"

fun into_bool :: "json \<Rightarrow> bool stored" where
  "into_bool (JBool b) = Put b"
| "into_bool JNull = Keep"
| "into_bool _ = Mismatch"

text \<open>\<open>json.Unmarshal\<close> returns the earliest type mismatch.\<close>

definition mismatch :: "error option \<Rightarrow> error option" where
  "mismatch err = (case err of None \<Rightarrow> Some JSONTypeError | Some e \<Rightarrow> Some e)"

text \<open>
  A member's key is matched with the keys of the struct's fields: the same key if there
  is one, else the first field whose key is equal under Unicode case folding. The field
  keys here are ASCII, so the key of a member matches one of them exactly when they are
  equal after the ASCII letters are put in lower case and the two other characters
  that fold to an ASCII letter are replaced: the long s (U+017F, the bytes C5 BF) by
  \<open>s\<close>, and the Kelvin sign (U+212A, the bytes E2 84 AA) by \<open>k\<close>.
\<close>

definition to_lower :: "char \<Rightarrow> char" where
  "to_lower c =
     (case map_of (zip ''ABCDEFGHIJKLMNOPQRSTUVWXYZ'' ''abcdefghijklmnopqrstuvwxyz'') c of
        Some l \<Rightarrow> l
      | None \<Rightarrow> c)"

fun fold_name :: "string \<Rightarrow> string" where
  "fold_name [] = []"
| "fold_name (c # cs) =
     (if take 2 (c # cs) = [CHR 0xC5, CHR 0xBF] then CHR ''s'' # fold_name (drop 1 cs)
      else if take 3 (c # cs) = [CHR 0xE2, CHR 0x84, CHR 0xAA] then CHR ''k'' # fold_name (drop 2 cs)
      else to_lower c # fold_name cs)"

definition EqualFold :: "string \<Rightarrow> string \<Rightarrow> bool" where
  "EqualFold s t = (fold_name s = fold_name t)"

definition field_for :: "string list \<Rightarrow> string \<Rightarrow> string option" where
  "field_for keys key =
     (if key \<in> set keys then Some key else find (\<lambda>k. EqualFold k key) keys)"

text \<open>
  \<open>json.Unmarshal(data, &v)\<close> for a struct \<open>v\<close>. \<open>parse\<close> reads the text (\<open>None\<close> for
  a text that is not JSON, and then \<open>v\<close> is untouched); \<open>member\<close> stores one member of
  an object in the struct. \<open>null\<close> changes nothing; any other value that is not an object
  is a type mismatch.
\<close>

definition Unmarshal_struct ::
  "(string \<Rightarrow> json option) \<Rightarrow> ('s \<times> error option \<Rightarrow> string \<times> json \<Rightarrow> 's \<times> error option) \<Rightarrow>
   string \<Rightarrow> 's \<Rightarrow> 's \<times> error option" where
  "Unmarshal_struct parse member data v =
     (case parse data of
        None \<Rightarrow> (v, Some JSONSyntaxError)
      | Some j \<Rightarrow>
          (case j of
             JNull \<Rightarrow> (v, None)
           | JObject members \<Rightarrow> foldl member (v, None) members
           | _ \<Rightarrow> (v, Some JSONTypeError)))"

text \<open>
  \<open>json.Unmarshal\<close> into a \<open>map[string]interface{}\<close>; only its error is used.
\<close>

definition Unmarshal_map :: "(string \<Rightarrow> json option) \<Rightarrow> string \<Rightarrow> error option" where
  "Unmarshal_map parse data =
     (case parse data of
        None \<Rightarrow> Some JSONSyntaxError
      | Some j \<Rightarrow>
          (case j of
             JNull \<Rightarrow> None
           | JObject members \<Rightarrow> None
           | _ \<Rightarrow> Some JSONTypeError))"

text \<open>
  The fields of \<open>bitbucketAPIError\<close> as \<open>encoding/json\<close> sees them: \<open>Message\<close> under
  its tag \<open>error\<close>, \<open>Type\<close> under its tag \<open>type\<close>, and the two exported fields without
  a tag, \<open>StatusCode\<close> and \<open>Endpoint\<close>, under their own names.
\<close>

definition bitbucketAPIError_member ::
  "bitbucketAPIError \<times> error option \<Rightarrow> string \<times> json \<Rightarrow> bitbucketAPIError \<times> error option" where
  "bitbucketAPIError_member acc m =
     (let e = fst acc; err = snd acc; v = snd m in
      case field_for [''error'', ''type'', ''StatusCode'', ''Endpoint''] (fst m) of
        None \<Rightarrow> (e, err)
      | Some f \<Rightarrow>
          if f = ''error'' then
            (case into_string v of
               Put s \<Rightarrow> (e\<lparr>Message := s\<rparr>, err) | Keep \<Rightarrow> (e, err) | Mismatch \<Rightarrow> (e, mismatch err))
          else if f = ''type'' then
            (case into_string v of
               Put s \<Rightarrow> (e\<lparr>Type := s\<rparr>, err) | Keep \<Rightarrow> (e, err) | Mismatch \<Rightarrow> (e, mismatch err))
          else if f = ''StatusCode'' then
            (case into_int v of
               Put n \<Rightarrow> (e\<lparr>StatusCode := n\<rparr>, err) | Keep \<Rightarrow> (e, err) | Mismatch \<Rightarrow> (e, mismatch err))
          else
            (case into_string v of
               Put s \<Rightarrow> (e\<lparr>Endpoint := s\<rparr>, err) | Keep \<Rightarrow> (e, err) | Mismatch \<Rightarrow> (e, mismatch err)))"

section \<open>The build status sent to Bitbucket\<close>

record bitbucketCommitStatus =
  State :: string
  Key :: string
  Name :: string
  URL :: string
  Description :: string

section \<open>HTTP requests and responses\<close>

text \<open>
  The part of \<open>http.Request\<close> the code sets. \<open>ReqBody\<close> is the body reader (\<open>None\<close> for
  a nil reader); \<open>BasicAuth\<close> is the Authorization header as \<open>SetBasicAuth\<close> writes it.
\<close>

record Request =
  Method :: string
  URL :: string
  ReqBody :: "string option"
  Header :: "(string \<times> string) list"
  BasicAuth :: "(string \<times> string) option"
  Close :: bool

text \<open>
  \<open>http.Response\<close>: its status code, its \<open>Location\<close> header (empty when there is
  none), and what \<open>ioutil.ReadAll(resp.Body)\<close> gives.
\<close>

record Response =
  StatusCode :: int
  Location :: string
  Body :: "error + string"

text \<open>\<open>http.Client\<close>: whether it has a cookie jar, and its timeout in nanoseconds.\<close>

record Client =
  Jar :: bool
  Timeout :: nat

definition Header_Add :: "Request \<Rightarrow> string \<Rightarrow> string \<Rightarrow> Request" where
  "Header_Add req k v = req\<lparr>Header := Header req @ [(k, v)]\<rparr>"

definition Header_Set :: "Request \<Rightarrow> string \<Rightarrow> string \<Rightarrow> Request" where
  "Header_Set req k v = req\<lparr>Header := filter (\<lambda>h. fst h \<noteq> k) (Header req) @ [(k, v)]\<rparr>"

definition SetBasicAuth :: "Request \<Rightarrow> string \<Rightarrow> string \<Rightarrow> Request" where
  "SetBasicAuth req user pass = req\<lparr>BasicAuth := Some (user, pass)\<rparr>"

section \<open>Data of the events and vcs packages\<close>

record Repo =
  FullName :: string
  Owner :: string
  Name :: string

record PullRequest =
  Num :: int
  HeadCommit :: string

record BitbucketClient =
  username :: string
  password :: string
  client :: Client

text \<open>
  \<open>CommitStatus\<close> is a Go integer type. The type and its three constants are declared
  in a file of the package that is not among the sources, so the constants are
  parameters here.
\<close>

type_synonym CommitStatus = int

record CommitStatusConsts =
  Pending :: CommitStatus
  Success :: CommitStatus
  Failed :: CommitStatus

section \<open>The environment\<close>

text \<open>
  What the libraries and the outside world answer: the JSON parser and encoder, which
  methods and URLs \<open>http.NewRequest\<close> rejects, what the network returns for one request
  sent by a client (\<open>send\<close>, an error for a failed or timed-out exchange), the two file
  system calls, and the approval query of the VCS client proxy. Three more answers
  belong to the redirects of \<open>http.Client\<close>: \<open>URL_Parse\<close> resolves a \<open>Location\<close> against
  the URL of the request; \<open>redirect_headers\<close> gives the headers and the Authorization
  that the client copies from the first request to a follow-up, from the first request,
  the URLs requested so far and the new URL (it drops the Authorization on a change of
  domain, and sets a Referer); \<open>missing_Location\<close> says what a 301, 302 or 303 without
  \<open>Location\<close> gives, an error in older releases of net/http and the response itself in
  newer ones.
\<close>

record Env =
  json_parse :: "string \<Rightarrow> json option"
  json_Encode :: "bitbucketCommitStatus \<Rightarrow> error + string"
  NewRequest_err :: "string \<Rightarrow> string \<Rightarrow> error option"
  send :: "Client \<Rightarrow> Request \<Rightarrow> error + Response"
  URL_Parse :: "string \<Rightarrow> string \<Rightarrow> error + string"
  redirect_headers ::
    "Request \<Rightarrow> string list \<Rightarrow> string \<Rightarrow> (string \<times> string) list \<times> (string \<times> string) option"
  missing_Location :: "int \<Rightarrow> error option"
  os_MkdirAll :: "string \<Rightarrow> nat \<Rightarrow> error option"
  ioutil_WriteFile :: "string \<Rightarrow> string \<Rightarrow> nat \<Rightarrow> error option"
  VCSClient_PullIsApproved :: "Repo \<Rightarrow> PullRequest \<Rightarrow> nat \<Rightarrow> bool \<times> error option"

definition NewRequest :: "Env \<Rightarrow> string \<Rightarrow> string \<Rightarrow> string option \<Rightarrow> error + Request" where
  "NewRequest env method url body =
     (case NewRequest_err env method url of
        Some err \<Rightarrow> Inl err
      | None \<Rightarrow>
          Inr \<lparr>Method = method, URL = url, ReqBody = body, Header = [], BasicAuth = None,
               Close = False\<rparr>)"

section \<open>\<open>http.Client.Do\<close> without a \<open>CheckRedirect\<close>\<close>

text \<open>
  Both HTTP clients of the code are made as \<open>http.Client\<close> values without a
  \<open>CheckRedirect\<close>, so \<open>Do\<close> follows redirects by itself. \<open>redirectBehavior\<close> gives
  the method of the next request, whether the response is a redirect to follow, and
  whether the body is sent again. A request with a body is made here from a
  \<open>bytes.Buffer\<close>, so its body can be sent again.
\<close>

definition redirectBehavior :: "string \<Rightarrow> Response \<Rightarrow> string \<times> bool \<times> bool" where
  "redirectBehavior reqMethod resp =
     (if StatusCode resp = 301 \<or> StatusCode resp = 302 \<or> StatusCode resp = 303 then
        (if reqMethod \<noteq> ''GET'' \<and> reqMethod \<noteq> ''HEAD'' then ''GET'' else reqMethod, True, False)
      else if StatusCode resp = 307 \<or> StatusCode resp = 308 then
        (if Location resp = '''' then (reqMethod, False, True) else (reqMethod, True, True))
      else ('''', False, False))"

text \<open>
  What \<open>Do\<close> does with the answer to the request \<open>req\<close>, the last of the requests
  \<open>reqs\<close> sent so far, of which \<open>ireq\<close> is the first: it returns, or it goes on
  with a request of its own making. That request is a new \<open>http.Request\<close>: \<open>Close\<close>
  is not set in it. The default policy refuses the next request when ten have been sent.
\<close>

datatype hop = Return "error + Response" | Follow Request

definition after_send ::
  "Env \<Rightarrow> Request \<Rightarrow> Request list \<Rightarrow> Request \<Rightarrow> error + Response \<Rightarrow> hop" where
  "after_send env ireq reqs req answer =
     (case answer of
        Inl err \<Rightarrow> Return (Inl err)
      | Inr resp \<Rightarrow>
          (let rb = redirectBehavior (Method req) resp;
               redirectMethod = fst rb; shouldRedirect = fst (snd rb); includeBody = snd (snd rb)
           in if \<not> shouldRedirect then Return (Inr resp)
              else if Location resp = '''' then
                (case missing_Location env (StatusCode resp) of
                   Some err \<Rightarrow> Return (Inl err)
                 | None \<Rightarrow> Return (Inr resp))
              else
                (case URL_Parse env (URL req) (Location resp) of
                   Inl err \<Rightarrow> Return (Inl err)
                 | Inr u \<Rightarrow>
                     (let copied = redirect_headers env ireq (map URL reqs) u;
                          next = \<lparr>Method = redirectMethod, URL = u,
                                  ReqBody = (if includeBody then ReqBody ireq else None),
                                  Header = fst copied, BasicAuth = snd copied, Close = False\<rparr>
                      in if length reqs \<ge> 10
                         then Return (Inl (Err ''stopped after 10 redirects''))
                         else Follow next))))"

text \<open>
  The loop of \<open>Do\<close>: the requests sent, in order, and the response or the error it
  returns. It ends, since no request follows the tenth.
\<close>

function client_loop ::
  "Env \<Rightarrow> Client \<Rightarrow> Request \<Rightarrow> Request list \<Rightarrow> Request \<Rightarrow> Request list \<times> (error + Response)" where
  "client_loop env c ireq sent req =
     (case after_send env ireq (sent @ [req]) req (send env c req) of
        Return r \<Rightarrow> (sent @ [req], r)
      | Follow next \<Rightarrow> client_loop env c ireq (sent @ [req]) next)"
  by pat_completeness auto
termination
  by (relation "measure (\<lambda>(env, c, ireq, sent, req). 10 - length sent)")
    (auto simp: after_send_def Let_def split: sum.splits option.splits if_splits)

declare client_loop.simps [simp del]

definition client_Do :: "Env \<Rightarrow> Client \<Rightarrow> Request \<Rightarrow> Request list \<times> (error + Response)" where
  "client_Do env c req = client_loop env c req [] req"

section \<open>The Bitbucket client\<close>

definition NewBitbucketClient :: "string \<Rightarrow> string \<Rightarrow> BitbucketClient \<times> error option" where
  "NewBitbucketClient user pass =
     (\<lparr>username = user, password = pass, client = \<lparr>Jar = False, Timeout = 0\<rparr>\<rparr>, None)"

text \<open>
  \<open>do\<close> returns the list of the requests that were sent, and the pair \<open>(resp, err)\<close>
  of the Go function. \<open>payload\<close> is \<open>None\<close> for a nil buffer.
\<close>

definition "do" ::
  "Env \<Rightarrow> BitbucketClient \<Rightarrow> string \<Rightarrow> string \<Rightarrow> string option \<Rightarrow>
   Request list \<times> Response option \<times> error option" where
  "do env b method endpoint payload =
     (let baseURL = ''https://api.bitbucket.org/2.0/'';
          requestURL = baseURL @ ''/'' @ endpoint;
          bodyreader = None
      in case NewRequest env method requestURL bodyreader of
        Inl err \<Rightarrow> ([], None, Some err)
      | Inr req0 \<Rightarrow>
          (let req1 = SetBasicAuth req0 (username b) (password b);
               req2 = (if payload \<noteq> None
                       then Header_Add req1 ''Content-Type'' ''application/json'' else req1);
               req = req2\<lparr>Close := True\<rparr>;
               answer = client_Do env (client b) req;
               sent = fst answer
           in case snd answer of
             Inl err \<Rightarrow> (sent, None, Some err)
           | Inr resp \<Rightarrow>
               if StatusCode resp \<ge> 400 \<or> StatusCode resp < 200 then
                 (let apiError = \<lparr>Message = '''', Type = '''',
                                   bitbucketAPIError.StatusCode = StatusCode resp,
                                   Endpoint = endpoint\<rparr>
                  in case Body resp of
                    Inl err \<Rightarrow> (sent, None, Some err)
                  | Inr body \<Rightarrow>
                      (let r = Unmarshal_struct (json_parse env) bitbucketAPIError_member
                                 body apiError;
                           apiError' = (if snd r \<noteq> None then (fst r)\<lparr>Message := body\<rparr>
                                        else fst r)
                       in (sent, Some resp, Some (APIError apiError'))))
               else (sent, Some resp, None)))"

definition GetModifiedFiles ::
  "Env \<Rightarrow> BitbucketClient \<Rightarrow> Repo \<Rightarrow> PullRequest \<Rightarrow> Request list \<times> string list \<times> error option" where
  "GetModifiedFiles env b repo pull = ([], [], None)"

definition CreateComment ::
  "Env \<Rightarrow> BitbucketClient \<Rightarrow> Repo \<Rightarrow> PullRequest \<Rightarrow> string \<Rightarrow> Request list \<times> error option" where
  "CreateComment env b repo pull comment = ([], None)"

text \<open>
  \<open>PullIsApproved\<close>: the requests sent, and the pair the Go function returns; \<open>None\<close>
  in its place is a nil dereference of \<open>resp\<close>.
\<close>

definition PullIsApproved ::
  "Env \<Rightarrow> BitbucketClient \<Rightarrow> Repo \<Rightarrow> PullRequest \<Rightarrow>
   Request list \<times> (bool \<times> error option) option" where
  "PullIsApproved env b repo pull =
     (let pullRequestURL = ''repositories/'' @ Owner repo @ ''/'' @ Name repo @
            ''/pullrequests?fields=values.id,values.reviewers.approved&q=id='' @ fmt_d (Num pull);
          r = do env b ''GET'' pullRequestURL None;
          sent = fst r; resp = fst (snd r); err = snd (snd r)
      in if err \<noteq> None then (sent, Some (False, err))
         else case resp of
           None \<Rightarrow> (sent, None)
         | Some resp' \<Rightarrow>
             (case Body resp' of
                Inl err \<Rightarrow> (sent, Some (False, Some err))
              | Inr body \<Rightarrow>
                  (case Unmarshal_map (json_parse env) body of
                     Some err \<Rightarrow> (sent, Some (False, Some err))
                   | None \<Rightarrow> (sent, Some (False, None)))))"

text \<open>The status \<open>UpdateStatus\<close> builds from the state and the description.\<close>

definition UpdateStatus_status ::
  "CommitStatusConsts \<Rightarrow> CommitStatus \<Rightarrow> string \<Rightarrow> bitbucketCommitStatus" where
  "UpdateStatus_status c state description =
     (let bbState = ''FAILED'';
          bbState = (if state = Pending c then ''INPROGRESS''
                     else if state = Success c then ''SUCCESSFUL''
                     else if state = Failed c then ''FAILED''
                     else bbState)
      in \<lparr>State = bbState, Key = ''FIXME'', bitbucketCommitStatus.Name = ''Atlantis'',
          bitbucketCommitStatus.URL = ''localhost:4141/bla'', Description = description\<rparr>)"

definition UpdateStatus ::
  "Env \<Rightarrow> CommitStatusConsts \<Rightarrow> BitbucketClient \<Rightarrow> Repo \<Rightarrow> PullRequest \<Rightarrow> CommitStatus \<Rightarrow> string \<Rightarrow>
   Request list \<times> error option" where
  "UpdateStatus env c b repo pull state description =
     (let status = UpdateStatus_status c state description in
      case json_Encode env status of
        Inl err \<Rightarrow> ([], Some err)
      | Inr payload \<Rightarrow>
          (let commitStatusURL = ''repositories/'' @ Owner repo @ ''/'' @ Name repo @
                 ''/commit/'' @ HeadCommit pull @ ''/statuses/build'';
               r = do env b ''POST'' commitStatusURL (Some payload)
           in (fst r, snd (snd r))))"

section \<open>Writing the AWS credentials\<close>

record EcsCredentials =
  AccessKeyId :: string
  Expiration :: string
  RoleArn :: string
  SecretAccessKey :: string
  Token :: string

definition writeAwsCredentials :: "Env \<Rightarrow> EcsCredentials \<Rightarrow> error option" where
  "writeAwsCredentials env credentials =
     (let template = [''[default]'',
                      ''aws_access_key_id='' @ AccessKeyId credentials,
                      ''aws_secret_access_key='' @ SecretAccessKey credentials,
                      ''aws_session_token='' @ Token credentials];
          templateRendered = Join template [CHR 0x0A];
          err = os_MkdirAll env ''/home/atlantis/.aws'' 448
      in if err \<noteq> None then err
         else (let werr = ioutil_WriteFile env ''/home/atlantis/.aws/credentials''
                            templateRendered 420
               in if werr \<noteq> None then err else None))"

section \<open>The apply executor\<close>

record ApplyExecutor =
  RequireApproval :: bool
  RequireExternalApproval :: bool
  ApprovalURL :: string

record externalApproval =
  PullRequest :: string
  ApprovedBy :: string
  Approved :: bool

record CommandContext =
  BaseRepo :: Repo
  Pull :: PullRequest
  VCSHost :: nat

text \<open>
  \<open>CommandResponse\<close>, for any type \<open>'r\<close> of project results.
\<close>

record 'r CommandResponse =
  Error :: "error option"
  Failure :: string
  ProjectResults :: "'r list"

text \<open>\<open>CommandResponse{Error: err}\<close> and \<open>CommandResponse{Failure: msg}\<close>.\<close>

definition response_Error :: "error \<Rightarrow> 'r CommandResponse" where
  "response_Error err = \<lparr>Error = Some err, Failure = '''', ProjectResults = []\<rparr>"

definition response_Failure :: "string \<Rightarrow> 'r CommandResponse" where
  "response_Failure msg = \<lparr>Error = None, Failure = msg, ProjectResults = []\<rparr>"

text \<open>
  A Go call either returns or panics.
\<close>

datatype 'a outcome = Panic | Returns 'a

text \<open>The fields of \<open>externalApproval\<close>; none has a tag.\<close>

definition externalApproval_member ::
  "externalApproval \<times> error option \<Rightarrow> string \<times> json \<Rightarrow> externalApproval \<times> error option" where
  "externalApproval_member acc m =
     (let a = fst acc; err = snd acc; v = snd m in
      case field_for [''PullRequest'', ''ApprovedBy'', ''Approved''] (fst m) of
        None \<Rightarrow> (a, err)
      | Some f \<Rightarrow>
          if f = ''PullRequest'' then
            (case into_string v of
               Put s \<Rightarrow> (a\<lparr>PullRequest := s\<rparr>, err) | Keep \<Rightarrow> (a, err) | Mismatch \<Rightarrow> (a, mismatch err))
          else if f = ''ApprovedBy'' then
            (case into_string v of
               Put s \<Rightarrow> (a\<lparr>ApprovedBy := s\<rparr>, err) | Keep \<Rightarrow> (a, err) | Mismatch \<Rightarrow> (a, mismatch err))
          else
            (case into_bool v of
               Put b \<Rightarrow> (a\<lparr>Approved := b\<rparr>, err) | Keep \<Rightarrow> (a, err) | Mismatch \<Rightarrow> (a, mismatch err)))"

text \<open>
  \<open>checkExternalApproval\<close>. When \<open>http.NewRequest\<close> fails, \<open>req\<close> is nil and
  \<open>req.Header.Set\<close>, which comes before the test of \<open>err\<close>, dereferences it. In the
  branch for status 200 the \<open>err\<close> returned after a failed \<open>json.Unmarshal\<close> is the one
  of \<open>ioutil.ReadAll\<close>, which is nil there.
\<close>

definition checkExternalApproval ::
  \<open>Env \<Rightarrow> ApplyExecutor \<Rightarrow> CommandContext \<Rightarrow> Repo \<Rightarrow> PullRequest \<Rightarrow> (bool \<times> error option) outcome\<close> where
  \<open>checkExternalApproval env a ctx repo pull =
     (let client = \<lparr>Jar = False, Timeout = 1000000000\<rparr>;
          payload = ''{"repo_owner": "'' @ Owner repo @ ''", "repo_name": "'' @ Name repo @
                    ''", "pull_request": '' @ fmt_d (Num pull) @ ''}''
      in case NewRequest env ''POST'' (ApprovalURL a) (Some payload) of
        Inl err \<Rightarrow> Panic
      | Inr req0 \<Rightarrow>
          (let req1 = Header_Set req0 ''Content-Type'' ''application/json'';
               req = req1\<lparr>Close := True\<rparr>
           in case snd (client_Do env client req) of
             Inl err \<Rightarrow> Returns (False, Some err)
           | Inr resp \<Rightarrow>
               if StatusCode resp = 200 then
                 (case Body resp of
                    Inl err \<Rightarrow> Returns (False, Some err)
                  | Inr body \<Rightarrow>
                      (let err = None;
                           r = Unmarshal_struct (json_parse env) externalApproval_member body
                                 \<lparr>PullRequest = '''', ApprovedBy = '''', Approved = False\<rparr>;
                           approval = fst r
                       in if snd r \<noteq> None then Returns (False, err)
                          else if Approved approval then Returns (True, None)
                          else Returns (False, None)))
               else if StatusCode resp \<ge> 400 \<or> StatusCode resp < 200 then Returns (False, None)
               else Returns (False, None)))\<close>

text \<open>
  \<open>Execute\<close>, its two approval gates as written. \<open>rest\<close> stands for the steps after
  the gates (looking up the workspace, finding the plans, applying each project), which
  run processes and walk the file system. Logging is left out.
\<close>

definition Execute ::
  "Env \<Rightarrow> (CommandContext \<Rightarrow> 'r CommandResponse) \<Rightarrow> ApplyExecutor \<Rightarrow> CommandContext \<Rightarrow>
   'r CommandResponse outcome" where
  "Execute env rest a ctx =
     (let internal =
            (if RequireApproval a then
               (let r = VCSClient_PullIsApproved env (BaseRepo ctx) (Pull ctx) (VCSHost ctx);
                    approved = fst r; err = snd r
                in case err of
                  Some e \<Rightarrow> Some (response_Error (Wrap e ''checking if pull request was approved''))
                | None \<Rightarrow>
                    if \<not> approved
                    then Some (response_Failure ''Pull request must be approved before running apply.'')
                    else None)
             else None)
      in case internal of
        Some response \<Rightarrow> Returns response
      | None \<Rightarrow>
          if RequireExternalApproval a then
            (case checkExternalApproval env a ctx (BaseRepo ctx) (Pull ctx) of
               Panic \<Rightarrow> Panic
             | Returns r \<Rightarrow>
                 (case snd r of
                    Some e \<Rightarrow>
                      Returns (response_Error
                        (Wrap e ''checking if pull request was approved (external)''))
                  | None \<Rightarrow>
                      if \<not> fst r
                      then Returns (response_Failure
                             ''Pull request must be approved before running apply. (external)'')
                      else Returns (rest ctx)))
          else Returns (rest ctx))"

section \<open>Predicates of the statements\<close>

text \<open>
  The payload of an error response, in the words of \<open>encoding/json\<close>. A member of the
  object belongs to the field of \<open>bitbucketAPIError\<close> that its key is matched with. It
  is stored in the field when its value has the type of the field (a string; for
  \<open>StatusCode\<close> an integer that fits), it is mistyped when its value is neither that
  nor \<open>null\<close>.
\<close>

definition field_of :: "string \<times> json \<Rightarrow> string option" where
  "field_of m = field_for [''error'', ''type'', ''StatusCode'', ''Endpoint''] (fst m)"

definition stores_in :: "string \<Rightarrow> string \<times> json \<Rightarrow> bool" where
  "stores_in f m =
     (field_of m = Some f \<and>
      (if f = ''StatusCode''
       then (case into_int (snd m) of Put n \<Rightarrow> True | _ \<Rightarrow> False)
       else (case into_string (snd m) of Put s \<Rightarrow> True | _ \<Rightarrow> False)))"

definition mistyped :: "string \<times> json \<Rightarrow> bool" where
  "mistyped m =
     (case field_of m of
        None \<Rightarrow> False
      | Some f \<Rightarrow>
          if f = ''StatusCode'' then into_int (snd m) = Mismatch
          else into_string (snd m) = Mismatch)"

definition members_of :: "json option \<Rightarrow> (string \<times> json) list" where
  "members_of parsed =
     (case parsed of
        None \<Rightarrow> []
      | Some j \<Rightarrow> (case j of JObject members \<Rightarrow> members | _ \<Rightarrow> []))"

text \<open>
  \<open>json.Unmarshal\<close> rejects the payload: it is not JSON, it is neither an object nor
  \<open>null\<close>, or one of its members is mistyped.
\<close>

definition payload_rejected :: "json option \<Rightarrow> bool" where
  "payload_rejected parsed =
     (case parsed of
        None \<Rightarrow> True
      | Some j \<Rightarrow>
          (case j of
             JNull \<Rightarrow> False
           | JObject members \<Rightarrow> list_ex mistyped members
           | _ \<Rightarrow> True))"

text \<open>
  The message the payload gives: the string of the last member stored in the field
  \<open>Message\<close> (tag \<open>error\<close>), empty when there is none.
\<close>

definition string_value :: "json \<Rightarrow> string" where
  "string_value v = (case v of JString s \<Rightarrow> s | _ \<Rightarrow> '''')"

definition decoded_message :: "json option \<Rightarrow> string" where
  "decoded_message parsed =
     (if filter (stores_in ''error'') (members_of parsed) = [] then ''''
      else string_value (snd (last (filter (stores_in ''error'') (members_of parsed)))))"

text \<open>The payload has a member that is stored in the field \<open>f\<close>.\<close>

definition payload_sets :: "string \<Rightarrow> json option \<Rightarrow> bool" where
  "payload_sets f parsed = list_ex (stores_in f) (members_of parsed)"

text \<open>
  A body marks the pull request as approved: it is a JSON object with a member
  \<open>Approved\<close> (in any case of the letters) whose value is \<open>true\<close>.
\<close>

definition body_says_approved :: "json \<Rightarrow> bool" where
  "body_says_approved j =
     (case j of
        JObject members \<Rightarrow>
          list_ex (\<lambda>m. EqualFold ''Approved'' (fst m) \<and> snd m = JBool True) members
      | _ \<Rightarrow> False)"

text \<open>A response with status 200 and a body marking the pull request as approved.\<close>

definition marks_approved :: "Env \<Rightarrow> Response \<Rightarrow> bool" where
  "marks_approved env resp =
     (StatusCode resp = 200 \<and>
      (case Body resp of
         Inl err \<Rightarrow> False
       | Inr body \<Rightarrow>
           (case json_parse env body of
              None \<Rightarrow> False
            | Some j \<Rightarrow> body_says_approved j)))"

text \<open>
  The requests sent for one call: the first, which the Bitbucket client made, has
  \<open>Close\<close> set and carries the client's basic authentication; the others, which the
  HTTP client made to follow redirects, do not have \<open>Close\<close> set.
\<close>

definition built_closed_with_auth :: "BitbucketClient \<Rightarrow> Request list \<Rightarrow> bool" where
  "built_closed_with_auth b sent =
     (case sent of
        [] \<Rightarrow> True
      | req # rest \<Rightarrow>
          Close req \<and> BasicAuth req = Some (username b, password b) \<and>
          list_all (\<lambda>q. \<not> Close q) rest)"

section \<open>Concrete inputs\<close>

text \<open>
  A client, a repository, a pull request and a few environments at which the theorems
  below are evaluated.
\<close>

definition bb :: BitbucketClient where
  "bb = fst (NewBitbucketClient ''atlantis-bot'' ''s3cret'')"

definition repo0 :: Repo where
  "repo0 = \<lparr>FullName = ''acme/infra'', Owner = ''acme'', Name = ''infra''\<rparr>"

definition pull0 :: PullRequest where
  "pull0 = \<lparr>Num = 7, HeadCommit = ''abc123''\<rparr>"

definition consts0 :: CommitStatusConsts where
  "consts0 = \<lparr>Pending = 0, Success = 1, Failed = 2\<rparr>"

definition creds0 :: EcsCredentials where
  "creds0 = \<lparr>AccessKeyId = ''AKIDEXAMPLE'', Expiration = ''2026-01-01T00:00:00Z'',
             RoleArn = ''arn:aws:iam::1:role/atlantis'', SecretAccessKey = ''secret'',
             Token = ''tok''\<rparr>"

text \<open>Nothing parses, no endpoint can be reached, the file system works.\<close>

definition env_quiet :: Env where
  "env_quiet =
     \<lparr>json_parse = (\<lambda>data. None),
      json_Encode = (\<lambda>status. Inr ''{}''),
      NewRequest_err = (\<lambda>method url. None),
      send = (\<lambda>c req. Inl (Err ''dial tcp: connection refused'')),
      URL_Parse = (\<lambda>base loc. Inr loc),
      redirect_headers = (\<lambda>ireq urls u. (Header ireq, BasicAuth ireq)),
      missing_Location = (\<lambda>code. None),
      os_MkdirAll = (\<lambda>path perm. None),
      ioutil_WriteFile = (\<lambda>path data perm. None),
      VCSClient_PullIsApproved = (\<lambda>repo pull host. (True, None))\<rparr>"

text \<open>The provider answers 201 to every request.\<close>

definition env_created :: Env where
  "env_created =
     env_quiet\<lparr>json_Encode := (\<lambda>status. Inr (''{State:'' @ State status @ ''}'')),
               send := (\<lambda>c req. Inr \<lparr>StatusCode = 201, Location = '''', Body = Inr ''{}''\<rparr>)\<rparr>"

text \<open>Writing a file fails.\<close>

definition env_disk_full :: Env where
  "env_disk_full =
     env_quiet\<lparr>ioutil_WriteFile := (\<lambda>path data perm. Some (Err ''no space left on device''))\<rparr>"

text \<open>The provider answers 304, and 404 with a body that is not JSON.\<close>

definition env_not_modified :: Env where
  "env_not_modified =
     env_quiet\<lparr>send := (\<lambda>c req. Inr \<lparr>StatusCode = 304, Location = '''', Body = Inr ''''\<rparr>)\<rparr>"

definition env_not_found :: Env where
  "env_not_found =
     env_quiet\<lparr>send := (\<lambda>c req. Inr \<lparr>StatusCode = 404, Location = '''', Body = Inr ''Not Found''\<rparr>)\<rparr>"

text \<open>
  The provider answers 200 with a pull request whose reviewer has approved it.
\<close>

definition body_approved :: string where
  \<open>body_approved = ''{"values": [{"id": 7, "reviewers": [{"approved": true}]}]}''\<close>

definition json_approved :: json where
  "json_approved =
     JObject [(''values'', JArray [JObject [(''id'', JInt 7),
        (''reviewers'', JArray [JObject [(''approved'', JBool True)]])]])]"

definition env_approved :: Env where
  "env_approved =
     env_quiet\<lparr>json_parse := map_of [(body_approved, json_approved)],
               send := (\<lambda>c req. Inr \<lparr>StatusCode = 200, Location = '''', Body = Inr body_approved\<rparr>)\<rparr>"

text \<open>The provider answers 500 and the connection breaks while the body is read.\<close>

definition env_cut :: Env where
  "env_cut =
     env_quiet\<lparr>send := (\<lambda>c req. Inr \<lparr>StatusCode = 500, Location = '''', Body = Inl (Err ''unexpected EOF'')\<rparr>)\<rparr>"

text \<open>
  The provider answers 500 with an error payload that has members named like the two
  untagged fields.
\<close>

definition body_spoof :: string where
  \<open>body_spoof = ''{"StatusCode": 200, "Endpoint": "elsewhere"}''\<close>

definition env_spoof :: Env where
  "env_spoof =
     env_quiet\<lparr>json_parse := map_of [(body_spoof,
                   JObject [(''StatusCode'', JInt 200), (''Endpoint'', JString ''elsewhere'')])],
               send := (\<lambda>c req. Inr \<lparr>StatusCode = 500, Location = '''', Body = Inr body_spoof\<rparr>)\<rparr>"

text \<open>The provider answers 404 with an error payload in JSON.\<close>

definition body_repo_missing :: string where
  \<open>body_repo_missing = ''{"type": "error", "error": "Repository not found"}''\<close>

definition env_repo_missing :: Env where
  "env_repo_missing =
     env_quiet\<lparr>json_parse := map_of [(body_repo_missing,
                   JObject [(''type'', JString ''error''),
                            (''error'', JString ''Repository not found'')])],
               send := (\<lambda>c req. Inr \<lparr>StatusCode = 404, Location = '''', Body = Inr body_repo_missing\<rparr>)\<rparr>"

text \<open>
  An executor that asks the approval endpoint only, a command context, and approval
  endpoints that answer 200 with a denial, 200 with a body that is not JSON, and 500.
\<close>

definition executor0 :: ApplyExecutor where
  "executor0 = \<lparr>RequireApproval = False, RequireExternalApproval = True,
                ApprovalURL = ''http://approval.local/check''\<rparr>"

definition ctx0 :: CommandContext where
  "ctx0 = \<lparr>BaseRepo = repo0, Pull = pull0, VCSHost = 0\<rparr>"

definition rest0 :: "CommandContext \<Rightarrow> string CommandResponse" where
  "rest0 ctx = \<lparr>Error = None, Failure = '''', ProjectResults = [''applied'']\<rparr>"

definition body_denied :: string where
  \<open>body_denied = ''{"Approved": false}''\<close>

definition env_denied :: Env where
  "env_denied =
     env_quiet\<lparr>json_parse := map_of [(body_denied, JObject [(''Approved'', JBool False)])],
               send := (\<lambda>c req. Inr \<lparr>StatusCode = 200, Location = '''', Body = Inr body_denied\<rparr>)\<rparr>"

definition env_garbled :: Env where
  "env_garbled =
     env_quiet\<lparr>send := (\<lambda>c req. Inr \<lparr>StatusCode = 200, Location = '''', Body = Inr ''<html>''\<rparr>)\<rparr>"

definition env_unavailable :: Env where
  "env_unavailable =
     env_quiet\<lparr>send := (\<lambda>c req. Inr \<lparr>StatusCode = 500, Location = '''', Body = Inr ''''\<rparr>)\<rparr>"

text \<open>
  An executor whose approval URL has no scheme, which \<open>http.NewRequest\<close>
  rejects.
\<close>

definition executor_bad_url :: ApplyExecutor where
  "executor_bad_url = \<lparr>RequireApproval = False, RequireExternalApproval = True,
                        ApprovalURL = ''://approval.local/check''\<rparr>"

definition env_bad_url :: Env where
  "env_bad_url =
     env_quiet\<lparr>NewRequest_err :=
       (\<lambda>method url. if url = ''://approval.local/check''
                      then Some (Err ''parse ://approval.local/check: missing protocol scheme'') else None)\<rparr>"

text \<open>An encoder that fails with the state of the status it is given.\<close>

definition env_echo :: Env where
  "env_echo = env_quiet\<lparr>json_Encode := (\<lambda>status. Inl (Err (State status)))\<rparr>"

text \<open>
  The provider redirects the request for \<open>user\<close> to another host, which answers 404;
  the client drops the Authorization on the way.
\<close>

definition env_redirect :: Env where
  "env_redirect =
     env_quiet\<lparr>send := (\<lambda>c req.
                 if URL req = ''https://api.bitbucket.org/2.0//user''
                 then Inr \<lparr>StatusCode = 302, Location = ''https://bitbucket.example/user'',
                           Body = Inr ''''\<rparr>
                 else Inr \<lparr>StatusCode = 404, Location = '''', Body = Inr ''Not Found''\<rparr>),
               redirect_headers := (\<lambda>ireq urls u. (Header ireq, None))\<rparr>"

text \<open>The provider answers 404 with its own error payload, whose \<open>error\<close> is an object.\<close>

definition body_nested :: string where
  \<open>body_nested = ''{"type": "error", "error": {"message": "Repository not found"}}''\<close>

definition env_nested :: Env where
  "env_nested =
     env_quiet\<lparr>json_parse := map_of [(body_nested,
                   JObject [(''type'', JString ''error''),
                            (''error'', JObject [(''message'', JString ''Repository not found'')])])],
               send := (\<lambda>c req. Inr \<lparr>StatusCode = 404, Location = '''', Body = Inr body_nested\<rparr>)\<rparr>"

section \<open>Validation of the VCS credentials\<close>

lemma check_mapping_ok:
  "list_all (\<lambda>val. count_sep val = 1) vals \<Longrightarrow> check_mapping vals = None"
  by (induction vals) simp_all

text \<open>
  C7. For every configuration whose non-credential fields are valid, \<open>validate\<close>
  succeeds exactly when the credentials are GitHub user and token, GitLab user and
  token, or all four; it returns the credentials error whenever a user is set without
  its token, a token without its user, or nothing is set.
\<close>

theorem validate_credentials:
  assumes "other_fields_valid config"
  shows "(validate config = None) =
           (github_only config \<or> gitlab_only config \<or> all_four config) \<and>
         (half_pair config \<or> none_set config \<longrightarrow> validate config = Some vcsErr)"
proof -
  from assms have lvl: "LogLevel config \<in> {''debug'', ''info'', ''warn'', ''error''}"
    and wf: "EnvDetectionWorkflow config \<in> {''modifiedfiles'', ''gitflow''}"
    and mp: "check_mapping (GitflowEnvBranchMapping config) = None"
    and ap: "Config.RequireExternalApproval config \<longrightarrow> Config.ApprovalURL config \<noteq> ''''"
    by (auto simp: other_fields_valid_def check_mapping_ok)
  have succeeds: "(validate config = None) =
           (github_only config \<or> gitlab_only config \<or> all_four config)"
    using lvl wf mp ap
    unfolding validate_def Let_def github_only_def gitlab_only_def all_four_def
    by auto
  have fails: "validate config = Some vcsErr" if "half_pair config \<or> none_set config"
    using that lvl
    unfolding validate_def Let_def half_pair_def none_set_def
    by auto
  from succeeds fails show ?thesis by blast
qed

theorem validate_credentials_witness:
  "other_fields_valid config_github \<and> github_only config_github \<and>
   validate config_github = None \<and>
   other_fields_valid config_token_missing \<and> half_pair config_token_missing \<and>
   validate config_token_missing = Some vcsErr"
proof -
  have v1: "other_fields_valid config_github"
    by (simp add: other_fields_valid_def config_github_def count_sep_def)
  have v2: "other_fields_valid config_token_missing"
    by (simp add: other_fields_valid_def config_token_missing_def count_sep_def)
  have g: "github_only config_github"
    by (simp add: github_only_def config_github_def)
  have h: "half_pair config_token_missing"
    by (simp add: half_pair_def config_token_missing_def)
  from validate_credentials [OF v1] g have "validate config_github = None" by blast
  moreover from validate_credentials [OF v2] h
  have "validate config_token_missing = Some vcsErr" by blast
  ultimately show ?thesis using v1 v2 g h by blast
qed

section \<open>What the HTTP client sends and returns\<close>

lemma client_Do_unfold:
  "client_Do env c req =
     (case after_send env req [req] req (send env c req) of
        Return r \<Rightarrow> ([req], r)
      | Follow next \<Rightarrow> client_loop env c req [req] next)"
  by (simp add: client_Do_def client_loop.simps [of env c req "[]" req] split: hop.splits)

lemma client_loop_unfold:
  "client_loop env c ireq (s # sent) req =
     (case after_send env ireq (s # sent @ [req]) req (send env c req) of
        Return r \<Rightarrow> (s # sent @ [req], r)
      | Follow next \<Rightarrow> client_loop env c ireq (s # sent @ [req]) next)"
  by (simp add: client_loop.simps [of env c ireq "s # sent" req] split: hop.splits)

lemma after_send_Follow:
  assumes "after_send env ireq reqs req answer = Follow next"
  shows "\<not> Close next \<and> (ReqBody ireq = None \<longrightarrow> ReqBody next = None)"
  using assms
  by (auto simp: after_send_def Let_def split: sum.splits option.splits if_splits)

lemma after_send_Return:
  assumes "after_send env ireq reqs req answer = Return (Inr resp)"
  shows "answer = Inr resp \<and>
         (StatusCode resp \<in> {301, 302, 303, 307, 308} \<longrightarrow> Location resp = [])"
  using assms
  by (auto simp: after_send_def redirectBehavior_def Let_def
      split: sum.splits option.splits if_splits)

text \<open>
  The requests of the loop: those sent before, the request it is given, and follow-ups
  of the client's own making, none of which has \<open>Close\<close> set, and none of which has a
  body when the first request has none.
\<close>

lemma client_loop_sent:
  "\<exists>rest. fst (client_loop env c ireq sent req) = sent @ req # rest \<and>
          (\<forall>q \<in> set rest. \<not> Close q \<and> (ReqBody ireq = None \<longrightarrow> ReqBody q = None))"
proof (induction env c ireq sent req rule: client_loop.induct)
  case (1 env c ireq sent req)
  show ?case
  proof (cases "after_send env ireq (sent @ [req]) req (send env c req)")
    case (Return r)
    then show ?thesis by (simp add: client_loop.simps [of env c ireq sent req])
  next
    case (Follow nxt)
    from "1.IH" [OF Follow] obtain rest
      where r: "fst (client_loop env c ireq (sent @ [req]) nxt) = (sent @ [req]) @ nxt # rest"
        and q: "\<forall>q \<in> set rest. \<not> Close q \<and> (ReqBody ireq = None \<longrightarrow> ReqBody q = None)"
      by blast
    from Follow r have "fst (client_loop env c ireq sent req) = sent @ req # (nxt # rest)"
      by (simp add: client_loop.simps [of env c ireq sent req])
    moreover from after_send_Follow [OF Follow] q
    have "\<forall>q \<in> set (nxt # rest). \<not> Close q \<and> (ReqBody ireq = None \<longrightarrow> ReqBody q = None)"
      by simp
    ultimately show ?thesis by blast
  qed
qed

text \<open>A response that the loop returns is the answer to the last request it sent.\<close>

lemma client_loop_last:
  assumes "snd (client_loop env c ireq sent req) = Inr resp"
  shows "send env c (last (fst (client_loop env c ireq sent req))) = Inr resp \<and>
         (StatusCode resp \<in> {301, 302, 303, 307, 308} \<longrightarrow> Location resp = [])"
  using assms
proof (induction env c ireq sent req rule: client_loop.induct)
  case (1 env c ireq sent req)
  show ?case
  proof (cases "after_send env ireq (sent @ [req]) req (send env c req)")
    case (Return r)
    with "1.prems" have "r = Inr resp"
      by (simp add: client_loop.simps [of env c ireq sent req])
    with Return after_send_Return
    have "send env c req = Inr resp \<and>
          (StatusCode resp \<in> {301, 302, 303, 307, 308} \<longrightarrow> Location resp = [])"
      by blast
    with Return show ?thesis by (simp add: client_loop.simps [of env c ireq sent req])
  next
    case (Follow nxt)
    with "1.prems" have "snd (client_loop env c ireq (sent @ [req]) nxt) = Inr resp"
      by (simp add: client_loop.simps [of env c ireq sent req])
    from "1.IH" [OF Follow this] Follow show ?thesis
      by (simp add: client_loop.simps [of env c ireq sent req])
  qed
qed

lemma client_Do_sent:
  "\<exists>rest. fst (client_Do env c req) = req # rest \<and>
          (\<forall>q \<in> set rest. \<not> Close q \<and> (ReqBody req = None \<longrightarrow> ReqBody q = None))"
  using client_loop_sent [of env c req "[]" req] by (simp add: client_Do_def)

lemma client_Do_last:
  assumes "snd (client_Do env c req) = Inr resp"
  shows "send env c (last (fst (client_Do env c req))) = Inr resp \<and>
         (StatusCode resp \<in> {301, 302, 303, 307, 308} \<longrightarrow> Location resp = [])"
  using assms client_loop_last [of env c req "[]" req resp] by (simp add: client_Do_def)

section \<open>What \<open>do\<close> sends and returns\<close>

lemma do_NewRequest_fails:
  assumes "NewRequest env method (''https://api.bitbucket.org/2.0/'' @ ''/'' @ endpoint) None = Inl err"
  shows "do env b method endpoint payload = ([], None, Some err)"
  using assms by (simp add: do_def Let_def)

text \<open>\<open>do\<close> once \<open>http.NewRequest\<close> has made the request \<open>req0\<close>.\<close>

lemma do_made:
  assumes "NewRequest env method (''https://api.bitbucket.org/2.0/'' @ ''/'' @ endpoint) None = Inr req0"
    and "req = (if payload \<noteq> None
                then Header_Add (SetBasicAuth req0 (username b) (password b))
                       ''Content-Type'' ''application/json''
                else SetBasicAuth req0 (username b) (password b))\<lparr>Close := True\<rparr>"
  shows "do env b method endpoint payload =
           (fst (client_Do env (client b) req),
            case snd (client_Do env (client b) req) of
              Inl err \<Rightarrow> (None, Some err)
            | Inr resp \<Rightarrow>
                if StatusCode resp \<ge> 400 \<or> StatusCode resp < 200 then
                  (case Body resp of
                     Inl err \<Rightarrow> (None, Some err)
                   | Inr body \<Rightarrow>
                       (let r = Unmarshal_struct (json_parse env) bitbucketAPIError_member body
                                  \<lparr>Message = '''', Type = '''',
                                   bitbucketAPIError.StatusCode = StatusCode resp,
                                   Endpoint = endpoint\<rparr>
                        in (Some resp,
                            Some (APIError (if snd r \<noteq> None then (fst r)\<lparr>Message := body\<rparr>
                                            else fst r)))))
                else (Some resp, None))"
  using assms by (simp add: do_def Let_def split: sum.splits)

lemma do_sent_eq:
  "fst (do env b method endpoint payload) =
     (case NewRequest env method (''https://api.bitbucket.org/2.0/'' @ ''/'' @ endpoint) None of
        Inl err \<Rightarrow> []
      | Inr req0 \<Rightarrow>
          fst (client_Do env (client b)
                ((if payload \<noteq> None
                  then Header_Add (SetBasicAuth req0 (username b) (password b))
                         ''Content-Type'' ''application/json''
                  else SetBasicAuth req0 (username b) (password b))\<lparr>Close := True\<rparr>)))"
proof (cases "NewRequest env method (''https://api.bitbucket.org/2.0/'' @ ''/'' @ endpoint) None")
  case (Inl err)
  then show ?thesis by (simp add: do_NewRequest_fails)
next
  case (Inr req0)
  from do_made [OF Inr refl] Inr show ?thesis by simp
qed

text \<open>The first request of \<open>do\<close> is the one it made; the others are the client's.\<close>

lemma do_first:
  assumes "fst (do env b method endpoint payload) = req # rest"
  shows "\<exists>req0. NewRequest env method (''https://api.bitbucket.org/2.0/'' @ ''/'' @ endpoint) None = Inr req0 \<and>
           req = (if payload \<noteq> None
                  then Header_Add (SetBasicAuth req0 (username b) (password b))
                         ''Content-Type'' ''application/json''
                  else SetBasicAuth req0 (username b) (password b))\<lparr>Close := True\<rparr> \<and>
           fst (client_Do env (client b) req) = req # rest"
proof (cases "NewRequest env method (''https://api.bitbucket.org/2.0/'' @ ''/'' @ endpoint) None")
  case (Inl err)
  with assms show ?thesis by (simp add: do_NewRequest_fails)
next
  case (Inr req0)
  let ?req = "(if payload \<noteq> None
                  then Header_Add (SetBasicAuth req0 (username b) (password b))
                         ''Content-Type'' ''application/json''
                  else SetBasicAuth req0 (username b) (password b))\<lparr>Close := True\<rparr>"
  from do_made [OF Inr refl] assms have s: "fst (client_Do env (client b) ?req) = req # rest"
    by simp
  with client_Do_sent [of env "client b" ?req] have "req = ?req" by auto
  with s Inr show ?thesis by simp
qed

lemma do_sent_shape:
  "fst (do env b method endpoint payload) = [] \<or>
   (\<exists>req rest. fst (do env b method endpoint payload) = req # rest \<and>
      Close req \<and> BasicAuth req = Some (username b, password b) \<and> ReqBody req = None \<and>
      (\<forall>q \<in> set rest. \<not> Close q \<and> ReqBody q = None))"
proof (cases "NewRequest env method (''https://api.bitbucket.org/2.0/'' @ ''/'' @ endpoint) None")
  case (Inl err)
  then show ?thesis by (simp add: do_NewRequest_fails)
next
  case (Inr req0)
  let ?req = "(if payload \<noteq> None
                  then Header_Add (SetBasicAuth req0 (username b) (password b))
                         ''Content-Type'' ''application/json''
                  else SetBasicAuth req0 (username b) (password b))\<lparr>Close := True\<rparr>"
  from Inr have "ReqBody req0 = None"
    by (auto simp: NewRequest_def split: option.splits)
  then have props: "Close ?req \<and> BasicAuth ?req = Some (username b, password b) \<and> ReqBody ?req = None"
    by (simp add: SetBasicAuth_def Header_Add_def)
  from client_Do_sent [of env "client b" ?req] props obtain rest
    where "fst (client_Do env (client b) ?req) = ?req # rest"
      and "\<forall>q \<in> set rest. \<not> Close q \<and> ReqBody q = None"
    by auto
  with do_made [OF Inr refl, of b payload] props show ?thesis by auto
qed

lemma do_sent:
  assumes "req \<in> set (fst (do env b method endpoint payload))"
  shows "ReqBody req = None"
  using assms do_sent_shape [of env b "method" endpoint payload] by auto

lemma PullIsApproved_sent:
  "fst (PullIsApproved env b repo pull) =
   fst (do env b ''GET'' (''repositories/'' @ Owner repo @ ''/'' @ Name repo @
            ''/pullrequests?fields=values.id,values.reviewers.approved&q=id='' @ fmt_d (Num pull)) None)"
  by (simp add: PullIsApproved_def Let_def split: option.splits sum.splits)

lemma UpdateStatus_sent:
  "fst (UpdateStatus env c b repo pull state description) = [] \<or>
   (\<exists>payload. fst (UpdateStatus env c b repo pull state description) =
      fst (do env b ''POST'' (''repositories/'' @ Owner repo @ ''/'' @ Name repo @
                 ''/commit/'' @ HeadCommit pull @ ''/statuses/build'') (Some payload)))"
  by (auto simp: UpdateStatus_def Let_def split: sum.splits)

section \<open>The error of \<open>do\<close> and the status code\<close>

text \<open>
  C10, the claim as stated fails: the provider answers the request with a 302 and a
  \<open>Location\<close>; the HTTP client follows the redirect, the second answer is a 404, and
  \<open>do\<close> returns an error. The redirect is not returned to the caller as success.
\<close>

theorem redirect_followed_counterexample:
  "send env_redirect (client bb)
     \<lparr>Method = ''GET'', URL = ''https://api.bitbucket.org/2.0//user'', ReqBody = None,
      Header = [], BasicAuth = Some (''atlantis-bot'', ''s3cret''), Close = True\<rparr>
     = Inr \<lparr>StatusCode = 302, Location = ''https://bitbucket.example/user'', Body = Inr ''''\<rparr> \<and>
   hd (fst (do env_redirect bb ''GET'' ''user'' None))
     = \<lparr>Method = ''GET'', URL = ''https://api.bitbucket.org/2.0//user'', ReqBody = None,
        Header = [], BasicAuth = Some (''atlantis-bot'', ''s3cret''), Close = True\<rparr> \<and>
   snd (do env_redirect bb ''GET'' ''user'' None)
     = (Some \<lparr>StatusCode = 404, Location = '''', Body = Inr ''Not Found''\<rparr>,
        Some (APIError \<lparr>Message = ''Not Found'', Type = '''',
                        bitbucketAPIError.StatusCode = 404, Endpoint = ''user''\<rparr>))"
  by (simp add: do_def NewRequest_def client_Do_unfold client_loop_unfold after_send_def
      redirectBehavior_def env_redirect_def env_quiet_def bb_def NewBitbucketClient_def
      SetBasicAuth_def Let_def Unmarshal_struct_def)

text \<open>
  C10, amended. When the HTTP client has returned a response for the request \<open>do\<close>
  made, \<open>do\<close> returns a non-nil error exactly when the status code of that response is
  below 200 or at least 400, and a response with a status from 200 to 399 is returned
  with a nil error. That response is the answer to the last request sent, and it is no
  redirect with a \<open>Location\<close>: those the HTTP client follows.
\<close>

theorem do_error_iff_status:
  assumes "fst (do env b method endpoint payload) = req # rest"
    and "snd (client_Do env (client b) req) = Inr resp"
  shows "(snd (snd (do env b method endpoint payload)) \<noteq> None) =
           (StatusCode resp < 200 \<or> StatusCode resp \<ge> 400) \<and>
         (200 \<le> StatusCode resp \<and> StatusCode resp < 400 \<longrightarrow>
            snd (do env b method endpoint payload) = (Some resp, None)) \<and>
         send env (client b) (last (req # rest)) = Inr resp \<and>
         (StatusCode resp \<in> {301, 302, 303, 307, 308} \<longrightarrow> Location resp = '''')"
proof -
  from do_first [OF assms(1)]
  obtain req0 where n: "NewRequest env method (''https://api.bitbucket.org/2.0/'' @ ''/'' @ endpoint) None = Inr req0"
    and r: "req = (if payload \<noteq> None
          then Header_Add (SetBasicAuth req0 (username b) (password b))
                 ''Content-Type'' ''application/json''
          else SetBasicAuth req0 (username b) (password b))\<lparr>Close := True\<rparr>"
    and s: "fst (client_Do env (client b) req) = req # rest"
    by blast
  note d = do_made [OF n r]
  from client_Do_last [OF assms(2)] s
  have answered: "send env (client b) (last (req # rest)) = Inr resp"
    and no_redirect: "StatusCode resp \<in> {301, 302, 303, 307, 308} \<longrightarrow> Location resp = ''''"
    by simp_all
  have status: "(snd (snd (do env b method endpoint payload)) \<noteq> None) =
           (StatusCode resp < 200 \<or> StatusCode resp \<ge> 400) \<and>
         (200 \<le> StatusCode resp \<and> StatusCode resp < 400 \<longrightarrow>
            snd (do env b method endpoint payload) = (Some resp, None))"
  proof (cases "StatusCode resp \<ge> 400 \<or> StatusCode resp < 200")
    case True
    with assms(2) show ?thesis
      by (cases "Body resp") (auto simp: d Let_def)
  next
    case False
    with assms(2) show ?thesis by (simp add: d)
  qed
  from status answered no_redirect show ?thesis by blast
qed

theorem do_error_iff_status_witness:
  "snd (do env_not_modified bb ''GET'' ''user'' None)
     = (Some \<lparr>StatusCode = 304, Location = '''', Body = Inr ''''\<rparr>, None) \<and>
   snd (snd (do env_not_found bb ''GET'' ''user'' None)) \<noteq> None"
proof -
  let ?req = "\<lparr>Method = ''GET'', URL = ''https://api.bitbucket.org/2.0//user'', ReqBody = None,
               Header = [], BasicAuth = Some (''atlantis-bot'', ''s3cret''), Close = True\<rparr>"
  have s1: "fst (do env_not_modified bb ''GET'' ''user'' None) = ?req # []"
    by (simp add: do_def NewRequest_def client_Do_unfold after_send_def redirectBehavior_def
        env_not_modified_def env_quiet_def bb_def NewBitbucketClient_def SetBasicAuth_def Let_def)
  have r1: "snd (client_Do env_not_modified (client bb) ?req)
              = Inr \<lparr>StatusCode = 304, Location = '''', Body = Inr ''''\<rparr>"
    by (simp add: client_Do_unfold after_send_def redirectBehavior_def env_not_modified_def
        env_quiet_def Let_def)
  have s2: "fst (do env_not_found bb ''GET'' ''user'' None) = ?req # []"
    by (simp add: do_def NewRequest_def client_Do_unfold after_send_def redirectBehavior_def
        env_not_found_def env_quiet_def bb_def NewBitbucketClient_def SetBasicAuth_def Let_def)
  have r2: "snd (client_Do env_not_found (client bb) ?req)
              = Inr \<lparr>StatusCode = 404, Location = '''', Body = Inr ''Not Found''\<rparr>"
    by (simp add: client_Do_unfold after_send_def redirectBehavior_def env_not_found_def
        env_quiet_def Let_def)
  from do_error_iff_status [OF s1 r1] do_error_iff_status [OF s2 r2]
  show ?thesis by simp
qed

section \<open>The build state sent to Bitbucket\<close>

text \<open>
  C3. Whatever distinct values the three constants have, \<open>UpdateStatus\<close> hands the
  JSON encoder a status whose state is \<open>INPROGRESS\<close> for \<open>Pending\<close>, \<open>SUCCESSFUL\<close> for
  \<open>Success\<close> and \<open>FAILED\<close> for \<open>Failed\<close>, and \<open>FAILED\<close>, so never \<open>SUCCESSFUL\<close>, for
  a state that is none of the three. It is stated three times: as the call of
  \<open>UpdateStatus\<close> with the status written out, as what \<open>UpdateStatus\<close> returns when the
  encoder fails with the state it is given, and on the status alone.
\<close>

theorem UpdateStatus_state:
  assumes "distinct [Pending c, Success c, Failed c]"
  shows "UpdateStatus env c b repo pull state description =
           (case json_Encode env
                   \<lparr>State = (if state = Pending c then ''INPROGRESS''
                              else if state = Success c then ''SUCCESSFUL'' else ''FAILED''),
                    Key = ''FIXME'', bitbucketCommitStatus.Name = ''Atlantis'',
                    bitbucketCommitStatus.URL = ''localhost:4141/bla'',
                    Description = description\<rparr> of
              Inl err \<Rightarrow> ([], Some err)
            | Inr payload \<Rightarrow>
                (fst (do env b ''POST'' (''repositories/'' @ Owner repo @ ''/'' @ Name repo @
                        ''/commit/'' @ HeadCommit pull @ ''/statuses/build'') (Some payload)),
                 snd (snd (do env b ''POST'' (''repositories/'' @ Owner repo @ ''/'' @ Name repo @
                        ''/commit/'' @ HeadCommit pull @ ''/statuses/build'') (Some payload))))) \<and>
         (json_Encode env = (\<lambda>status. Inl (Err (State status))) \<longrightarrow>
            snd (UpdateStatus env c b repo pull (Pending c) description) = Some (Err ''INPROGRESS'') \<and>
            snd (UpdateStatus env c b repo pull (Success c) description) = Some (Err ''SUCCESSFUL'') \<and>
            snd (UpdateStatus env c b repo pull (Failed c) description) = Some (Err ''FAILED'') \<and>
            (state \<notin> {Pending c, Success c, Failed c} \<longrightarrow>
               snd (UpdateStatus env c b repo pull state description) = Some (Err ''FAILED''))) \<and>
         State (UpdateStatus_status c (Pending c) description) = ''INPROGRESS'' \<and>
         State (UpdateStatus_status c (Success c) description) = ''SUCCESSFUL'' \<and>
         State (UpdateStatus_status c (Failed c) description) = ''FAILED'' \<and>
         (state \<notin> {Pending c, Success c, Failed c} \<longrightarrow>
            State (UpdateStatus_status c state description) \<noteq> ''SUCCESSFUL'')"
proof -
  have call: "UpdateStatus env c b repo pull state description =
           (case json_Encode env
                   \<lparr>State = (if state = Pending c then ''INPROGRESS''
                              else if state = Success c then ''SUCCESSFUL'' else ''FAILED''),
                    Key = ''FIXME'', bitbucketCommitStatus.Name = ''Atlantis'',
                    bitbucketCommitStatus.URL = ''localhost:4141/bla'',
                    Description = description\<rparr> of
              Inl err \<Rightarrow> ([], Some err)
            | Inr payload \<Rightarrow>
                (fst (do env b ''POST'' (''repositories/'' @ Owner repo @ ''/'' @ Name repo @
                        ''/commit/'' @ HeadCommit pull @ ''/statuses/build'') (Some payload)),
                 snd (snd (do env b ''POST'' (''repositories/'' @ Owner repo @ ''/'' @ Name repo @
                        ''/commit/'' @ HeadCommit pull @ ''/statuses/build'') (Some payload)))))"
    by (simp add: UpdateStatus_def UpdateStatus_status_def Let_def split: sum.splits)
  have echo: "snd (UpdateStatus env c b repo pull s description)
                = Some (Err (State (UpdateStatus_status c s description)))"
    if "json_Encode env = (\<lambda>status. Inl (Err (State status)))" for s
    using that by (simp add: UpdateStatus_def Let_def)
  have states: "State (UpdateStatus_status c (Pending c) description) = ''INPROGRESS''"
    "State (UpdateStatus_status c (Success c) description) = ''SUCCESSFUL''"
    "State (UpdateStatus_status c (Failed c) description) = ''FAILED''"
    using assms by (simp_all add: UpdateStatus_status_def)
  have other: "State (UpdateStatus_status c state description) = ''FAILED''"
    if "state \<notin> {Pending c, Success c, Failed c}"
    using that by (simp add: UpdateStatus_status_def)
  from call echo states other show ?thesis by simp
qed

theorem UpdateStatus_state_witness:
  "distinct [Pending consts0, Success consts0, Failed consts0] \<and>
   json_Encode env_echo = (\<lambda>status. Inl (Err (State status))) \<and>
   UpdateStatus env_echo consts0 bb repo0 pull0 0 ''plan'' = ([], Some (Err ''INPROGRESS'')) \<and>
   UpdateStatus env_echo consts0 bb repo0 pull0 1 ''plan'' = ([], Some (Err ''SUCCESSFUL'')) \<and>
   UpdateStatus env_echo consts0 bb repo0 pull0 2 ''plan'' = ([], Some (Err ''FAILED'')) \<and>
   7 \<notin> {Pending consts0, Success consts0, Failed consts0} \<and>
   UpdateStatus env_echo consts0 bb repo0 pull0 7 ''plan'' = ([], Some (Err ''FAILED''))"
proof -
  have d: "distinct [Pending consts0, Success consts0, Failed consts0]"
    by (simp add: consts0_def)
  have e: "json_Encode env_echo = (\<lambda>status. Inl (Err (State status)))"
    by (simp add: env_echo_def env_quiet_def)
  have out: "7 \<notin> {Pending consts0, Success consts0, Failed consts0}"
    by (simp add: consts0_def)
  have p: "Pending consts0 = 0" "Success consts0 = 1" "Failed consts0 = 2"
    by (simp_all add: consts0_def)
  from UpdateStatus_state [OF d, of env_echo bb repo0 pull0 0 "''plan''"]
    UpdateStatus_state [OF d, of env_echo bb repo0 pull0 1 "''plan''"]
    UpdateStatus_state [OF d, of env_echo bb repo0 pull0 2 "''plan''"]
    UpdateStatus_state [OF d, of env_echo bb repo0 pull0 7 "''plan''"]
  have "UpdateStatus env_echo consts0 bb repo0 pull0 0 ''plan'' = ([], Some (Err ''INPROGRESS''))"
    "UpdateStatus env_echo consts0 bb repo0 pull0 1 ''plan'' = ([], Some (Err ''SUCCESSFUL''))"
    "UpdateStatus env_echo consts0 bb repo0 pull0 2 ''plan'' = ([], Some (Err ''FAILED''))"
    "UpdateStatus env_echo consts0 bb repo0 pull0 7 ''plan'' = ([], Some (Err ''FAILED''))"
    by (simp_all add: e p)
  with d e out show ?thesis by simp
qed

section \<open>The requests of the Bitbucket client\<close>

text \<open>
  C6, the claim as stated fails: the provider redirects the request to another host.
  The HTTP client sends a second request of its own making, in which \<open>Close\<close> is not
  set and from which it has dropped the Authorization.
\<close>

theorem follow_up_request_counterexample:
  "fst (do env_redirect bb ''GET'' ''user'' None) =
     [\<lparr>Method = ''GET'', URL = ''https://api.bitbucket.org/2.0//user'', ReqBody = None,
       Header = [], BasicAuth = Some (''atlantis-bot'', ''s3cret''), Close = True\<rparr>,
      \<lparr>Method = ''GET'', URL = ''https://bitbucket.example/user'', ReqBody = None,
       Header = [], BasicAuth = None, Close = False\<rparr>]"
  by (simp add: do_def NewRequest_def client_Do_unfold client_loop_unfold after_send_def
      redirectBehavior_def env_redirect_def env_quiet_def bb_def NewBitbucketClient_def
      SetBasicAuth_def Let_def Unmarshal_struct_def)

text \<open>
  C6, amended. The request that \<open>do\<close>, and so \<open>PullIsApproved\<close> and \<open>UpdateStatus\<close>,
  builds and hands to the HTTP client has \<open>Close\<close> set and carries the basic
  authentication of the client's user name and password; the requests the HTTP client
  adds to follow a redirect do not have \<open>Close\<close> set. \<open>GetModifiedFiles\<close> and
  \<open>CreateComment\<close> send nothing, and the HTTP client of \<open>NewBitbucketClient\<close> has no
  cookie jar.
\<close>

theorem requests_closed_with_auth:
  "built_closed_with_auth b (fst (do env b method endpoint payload)) \<and>
   built_closed_with_auth b (fst (PullIsApproved env b repo pull)) \<and>
   built_closed_with_auth b (fst (UpdateStatus env c b repo pull state description)) \<and>
   fst (GetModifiedFiles env b repo pull) = [] \<and>
   fst (CreateComment env b repo pull comment) = [] \<and>
   \<not> Jar (client (fst (NewBitbucketClient user pass)))"
proof -
  have built: "built_closed_with_auth b (fst (do env b m e p))" for m e p
    using do_sent_shape [of env b m e p]
    by (auto simp: built_closed_with_auth_def list_all_iff)
  have status: "built_closed_with_auth b (fst (UpdateStatus env c b repo pull state description))"
    using UpdateStatus_sent [of env c b repo pull state description] built
    by (auto simp: built_closed_with_auth_def)
  from built status show ?thesis
    by (simp add: PullIsApproved_sent GetModifiedFiles_def CreateComment_def NewBitbucketClient_def)
qed

theorem requests_closed_with_auth_witness:
  "\<exists>req q. fst (do env_redirect bb ''GET'' ''user'' None) = [req, q] \<and>
     Close req \<and> BasicAuth req = Some (''atlantis-bot'', ''s3cret'') \<and> \<not> Close q"
proof -
  let ?sent = "fst (do env_redirect bb ''GET'' ''user'' None)"
  have "\<exists>req q. ?sent = [req, q]"
    by (simp add: do_def NewRequest_def client_Do_unfold client_loop_unfold after_send_def
        redirectBehavior_def env_redirect_def env_quiet_def SetBasicAuth_def Let_def)
  then obtain req q where two: "?sent = [req, q]" by blast
  with requests_closed_with_auth [of bb env_redirect "''GET''" "''user''" None repo0 pull0
      consts0 1 "''Apply succeeded''" "''hello''" "''atlantis-bot''" "''s3cret''"]
  have "Close req \<and> BasicAuth req = Some (username bb, password bb) \<and> \<not> Close q"
    by (simp add: built_closed_with_auth_def)
  then have "Close req \<and> BasicAuth req = Some (''atlantis-bot'', ''s3cret'') \<and> \<not> Close q"
    by (simp add: bb_def NewBitbucketClient_def)
  with two show ?thesis by blast
qed

section \<open>The body of the requests\<close>

text \<open>
  C8. No request of \<open>do\<close> has a body, whatever the payload, so the request of
  \<open>UpdateStatus\<close> has none either; two payloads give the same request.
\<close>

theorem request_body_nil:
  "(\<forall>req \<in> set (fst (do env b method endpoint payload)). ReqBody req = None) \<and>
   (\<forall>req \<in> set (fst (UpdateStatus env c b repo pull state description)). ReqBody req = None) \<and>
   fst (do env b method endpoint (Some p)) = fst (do env b method endpoint (Some q))"
proof -
  have same: "fst (do env b method endpoint (Some p)) = fst (do env b method endpoint (Some q))"
    by (simp add: do_sent_eq split: sum.splits)
  have one: "\<forall>req \<in> set (fst (do env b method endpoint payload)). ReqBody req = None"
    using do_sent by blast
  have two: "\<forall>req \<in> set (fst (UpdateStatus env c b repo pull state description)). ReqBody req = None"
    using UpdateStatus_sent [of env c b repo pull state description] do_sent by fastforce
  from one two same show ?thesis by blast
qed

theorem request_body_nil_witness:
  "json_Encode env_created (UpdateStatus_status consts0 1 ''Apply succeeded'') = Inr ''{State:SUCCESSFUL}'' \<and>
   (\<exists>req. fst (UpdateStatus env_created consts0 bb repo0 pull0 1 ''Apply succeeded'') = [req] \<and>
          Method req = ''POST'' \<and> ReqBody req = None)"
proof -
  let ?sent = "fst (UpdateStatus env_created consts0 bb repo0 pull0 1 ''Apply succeeded'')"
  have enc: "json_Encode env_created (UpdateStatus_status consts0 1 ''Apply succeeded'') = Inr ''{State:SUCCESSFUL}''"
    by (simp add: env_created_def env_quiet_def UpdateStatus_status_def consts0_def)
  have "\<exists>req. ?sent = [req] \<and> Method req = ''POST''"
    by (simp add: UpdateStatus_def do_def NewRequest_def client_Do_unfold after_send_def
        redirectBehavior_def env_created_def env_quiet_def Let_def SetBasicAuth_def Header_Add_def)
  then obtain req where one: "?sent = [req]" and m: "Method req = ''POST''" by blast
  then have "req \<in> set ?sent" by simp
  with request_body_nil [of env_created bb "''POST''" "''x''" None consts0 repo0 pull0 1
      "''Apply succeeded''" "''a''" "''b''"]
  have "ReqBody req = None" by blast
  with one m enc show ?thesis by blast
qed

section \<open>Writing the credentials file\<close>

text \<open>
  C9. When \<open>os.MkdirAll\<close> succeeds, \<open>writeAwsCredentials\<close> returns nil, whatever
  \<open>ioutil.WriteFile\<close> returns: a failed write is not reported.
\<close>

theorem writeAwsCredentials_hides_write_error:
  assumes "os_MkdirAll env ''/home/atlantis/.aws'' 448 = None"
  shows "writeAwsCredentials env credentials = None"
  using assms by (simp add: writeAwsCredentials_def Let_def)

theorem writeAwsCredentials_hides_write_error_witness:
  "os_MkdirAll env_disk_full ''/home/atlantis/.aws'' 448 = None \<and>
   ioutil_WriteFile env_disk_full ''/home/atlantis/.aws/credentials''
     (Join [''[default]'', ''aws_access_key_id=AKIDEXAMPLE'', ''aws_secret_access_key=secret'',
            ''aws_session_token=tok''] [CHR 0x0A]) 420 = Some (Err ''no space left on device'') \<and>
   writeAwsCredentials env_disk_full creds0 = None"
proof -
  have mk: "os_MkdirAll env_disk_full ''/home/atlantis/.aws'' 448 = None"
    by (simp add: env_disk_full_def env_quiet_def)
  from writeAwsCredentials_hides_write_error [OF mk, of creds0] mk show ?thesis
    by (simp add: env_disk_full_def env_quiet_def)
qed

section \<open>The two unfinished queries\<close>

lemma PullIsApproved_never_true:
  "snd (PullIsApproved env b repo pull) \<noteq> Some (True, err)"
  by (auto simp: PullIsApproved_def Let_def split: option.splits sum.splits)

text \<open>
  C1. \<open>PullIsApproved\<close> at a pull request that the provider reports as approved by
  its reviewer: the answer is read and parsed without error, and the result is
  \<open>(false, nil)\<close>.
\<close>

theorem PullIsApproved_of_approved_pull:
  "snd (client_Do env_approved (client bb) req)
     = Inr \<lparr>StatusCode = 200, Location = '''', Body = Inr body_approved\<rparr> \<and>
   json_parse env_approved body_approved = Some json_approved \<and>
   snd (PullIsApproved env_approved bb repo0 pull0) = Some (False, None)"
  by (simp add: PullIsApproved_def do_def NewRequest_def client_Do_unfold after_send_def
      redirectBehavior_def env_approved_def env_quiet_def Let_def Unmarshal_map_def
      json_approved_def)

text \<open>
  C5. \<open>GetModifiedFiles\<close> sends no request and returns no file name and no error,
  for every repository and pull request.
\<close>

theorem GetModifiedFiles_returns_nothing:
  "GetModifiedFiles env b repo pull = ([], [], None)"
  by (simp add: GetModifiedFiles_def)

section \<open>The error of an API request\<close>

lemma field_for_in:
  assumes "field_for keys key = Some f"
  shows "f \<in> set keys"
  using assms
  by (auto simp: field_for_def find_Some_iff split: if_splits)

text \<open>One member, as \<open>bitbucketAPIError_member\<close> stores it.\<close>

lemma bitbucketAPIError_member_step:
  "Message (fst (bitbucketAPIError_member acc m))
     = (if stores_in ''error'' m then string_value (snd m) else Message (fst acc)) \<and>
   (stores_in ''StatusCode'' m \<or>
      bitbucketAPIError.StatusCode (fst (bitbucketAPIError_member acc m))
        = bitbucketAPIError.StatusCode (fst acc)) \<and>
   (stores_in ''Endpoint'' m \<or>
      Endpoint (fst (bitbucketAPIError_member acc m)) = Endpoint (fst acc)) \<and>
   (snd (bitbucketAPIError_member acc m) \<noteq> None) = (snd acc \<noteq> None \<or> mistyped m)"
proof (cases "field_for [''error'', ''type'', ''StatusCode'', ''Endpoint''] (fst m)")
  case None
  then show ?thesis
    by (simp add: bitbucketAPIError_member_def stores_in_def mistyped_def field_of_def Let_def)
next
  case (Some f)
  from field_for_in [OF Some]
  have "f = ''error'' \<or> f = ''type'' \<or> f = ''StatusCode'' \<or> f = ''Endpoint''"
    by simp
  then show ?thesis
  proof (elim disjE)
    assume "f = ''error''"
    with Some show ?thesis
      by (cases "snd m")
        (simp_all add: bitbucketAPIError_member_def stores_in_def mistyped_def field_of_def
          string_value_def mismatch_def Let_def split: option.splits)
  next
    assume "f = ''type''"
    with Some show ?thesis
      by (cases "snd m")
        (simp_all add: bitbucketAPIError_member_def stores_in_def mistyped_def field_of_def
          string_value_def mismatch_def Let_def split: option.splits)
  next
    assume "f = ''StatusCode''"
    with Some show ?thesis
      by (cases "snd m")
        (simp_all add: bitbucketAPIError_member_def stores_in_def mistyped_def field_of_def
          string_value_def mismatch_def Let_def split: option.splits)
  next
    assume "f = ''Endpoint''"
    with Some show ?thesis
      by (cases "snd m")
        (simp_all add: bitbucketAPIError_member_def stores_in_def mistyped_def field_of_def
          string_value_def mismatch_def Let_def split: option.splits)
  qed
qed

text \<open>All members, in the order of the payload.\<close>

lemma foldl_member_all:
  "Message (fst (foldl bitbucketAPIError_member acc members))
     = (if filter (stores_in ''error'') members = [] then Message (fst acc)
        else string_value (snd (last (filter (stores_in ''error'') members)))) \<and>
   (list_ex (stores_in ''StatusCode'') members \<or>
      bitbucketAPIError.StatusCode (fst (foldl bitbucketAPIError_member acc members))
        = bitbucketAPIError.StatusCode (fst acc)) \<and>
   (list_ex (stores_in ''Endpoint'') members \<or>
      Endpoint (fst (foldl bitbucketAPIError_member acc members)) = Endpoint (fst acc)) \<and>
   (snd (foldl bitbucketAPIError_member acc members) \<noteq> None)
     = (snd acc \<noteq> None \<or> list_ex mistyped members)"
proof (induction members rule: rev_induct)
  case Nil
  then show ?case by simp
next
  case (snoc m members)
  from snoc.IH
    bitbucketAPIError_member_step [of "foldl bitbucketAPIError_member acc members" m]
  show ?case by auto
qed

lemma Unmarshal_all:
  "Message (fst (Unmarshal_struct parse bitbucketAPIError_member body e))
     = (if filter (stores_in ''error'') (members_of (parse body)) = [] then Message e
        else decoded_message (parse body)) \<and>
   (payload_sets ''StatusCode'' (parse body) \<or>
      bitbucketAPIError.StatusCode (fst (Unmarshal_struct parse bitbucketAPIError_member body e))
        = bitbucketAPIError.StatusCode e) \<and>
   (payload_sets ''Endpoint'' (parse body) \<or>
      Endpoint (fst (Unmarshal_struct parse bitbucketAPIError_member body e)) = Endpoint e) \<and>
   (snd (Unmarshal_struct parse bitbucketAPIError_member body e) \<noteq> None)
     = payload_rejected (parse body)"
proof (cases "parse body")
  case None
  then show ?thesis
    by (simp add: Unmarshal_struct_def members_of_def payload_rejected_def)
next
  case (Some j)
  show ?thesis
  proof (cases j)
    case (JObject members)
    with Some foldl_member_all [of "(e, None)" members]
    show ?thesis
      by (simp add: Unmarshal_struct_def members_of_def payload_rejected_def payload_sets_def
          decoded_message_def)
  qed (simp_all add: Unmarshal_struct_def members_of_def payload_rejected_def Some)
qed

text \<open>
  C4, the claim as stated fails: the provider answers 500 and reading the body fails;
  \<open>do\<close> returns the error of the read, which is no \<open>bitbucketAPIError\<close> and carries
  neither the status code nor the endpoint.
\<close>

theorem do_read_error_counterexample:
  "fst (do env_cut bb ''GET'' ''user'' None) =
     [\<lparr>Method = ''GET'', URL = ''https://api.bitbucket.org/2.0//user'', ReqBody = None,
       Header = [], BasicAuth = Some (''atlantis-bot'', ''s3cret''), Close = True\<rparr>] \<and>
   snd (client_Do env_cut (client bb)
     \<lparr>Method = ''GET'', URL = ''https://api.bitbucket.org/2.0//user'', ReqBody = None,
      Header = [], BasicAuth = Some (''atlantis-bot'', ''s3cret''), Close = True\<rparr>)
     = Inr \<lparr>StatusCode = 500, Location = '''', Body = Inl (Err ''unexpected EOF'')\<rparr> \<and>
   snd (do env_cut bb ''GET'' ''user'' None) = (None, Some (Err ''unexpected EOF''))"
  by (simp add: do_def NewRequest_def client_Do_unfold after_send_def redirectBehavior_def
      env_cut_def env_quiet_def bb_def NewBitbucketClient_def SetBasicAuth_def Let_def)

text \<open>
  C4, amended. The HTTP client has returned a response with a status below 200 or at
  least 400. When reading its body fails, \<open>do\<close> returns the error of the read. When
  the body is read, \<open>do\<close> returns the response and a \<open>bitbucketAPIError\<close>. Its message
  is the raw body when \<open>json.Unmarshal\<close> rejects the payload, and else the message the
  payload gives. It carries the status code of the response unless a member of the
  payload is stored in the field \<open>StatusCode\<close>, and the endpoint of the call unless a
  member is stored in the field \<open>Endpoint\<close>.
\<close>

theorem do_api_error:
  assumes "fst (do env b method endpoint payload) = req # rest"
    and "snd (client_Do env (client b) req) = Inr resp"
    and "StatusCode resp \<ge> 400 \<or> StatusCode resp < 200"
  shows "(\<forall>err. Body resp = Inl err \<longrightarrow>
            snd (do env b method endpoint payload) = (None, Some err)) \<and>
         (\<forall>body. Body resp = Inr body \<longrightarrow>
            (\<exists>e. snd (do env b method endpoint payload) = (Some resp, Some (APIError e)) \<and>
               Message e = (if payload_rejected (json_parse env body) then body
                            else decoded_message (json_parse env body)) \<and>
               (\<not> payload_sets ''StatusCode'' (json_parse env body) \<longrightarrow>
                  bitbucketAPIError.StatusCode e = StatusCode resp) \<and>
               (\<not> payload_sets ''Endpoint'' (json_parse env body) \<longrightarrow>
                  Endpoint e = endpoint)))"
proof -
  from do_first [OF assms(1)]
  obtain req0 where n: "NewRequest env method (''https://api.bitbucket.org/2.0/'' @ ''/'' @ endpoint) None = Inr req0"
    and r: "req = (if payload \<noteq> None
          then Header_Add (SetBasicAuth req0 (username b) (password b))
                 ''Content-Type'' ''application/json''
          else SetBasicAuth req0 (username b) (password b))\<lparr>Close := True\<rparr>"
    by blast
  note d = do_made [OF n r]
  have unread: "snd (do env b method endpoint payload) = (None, Some err)"
    if "Body resp = Inl err" for err
    using that assms(2,3) by (simp add: d)
  have read: "\<exists>e. snd (do env b method endpoint payload) = (Some resp, Some (APIError e)) \<and>
               Message e = (if payload_rejected (json_parse env body) then body
                            else decoded_message (json_parse env body)) \<and>
               (\<not> payload_sets ''StatusCode'' (json_parse env body) \<longrightarrow>
                  bitbucketAPIError.StatusCode e = StatusCode resp) \<and>
               (\<not> payload_sets ''Endpoint'' (json_parse env body) \<longrightarrow>
                  Endpoint e = endpoint)"
    if body: "Body resp = Inr body" for body
  proof -
    let ?zero = "\<lparr>Message = '''', Type = '''', bitbucketAPIError.StatusCode = StatusCode resp,
                  Endpoint = endpoint\<rparr>"
    let ?r = "Unmarshal_struct (json_parse env) bitbucketAPIError_member body ?zero"
    define e where "e = (if snd ?r \<noteq> None then (fst ?r)\<lparr>Message := body\<rparr> else fst ?r)"
    note u = Unmarshal_all [of "json_parse env" body ?zero]
    from assms(2,3) body
    have res: "snd (do env b method endpoint payload) = (Some resp, Some (APIError e))"
      by (simp add: d Let_def e_def)
    from u have rejected: "(snd ?r \<noteq> None) = payload_rejected (json_parse env body)"
      by blast
    from u have msg: "Message (fst ?r)
        = (if filter (stores_in ''error'') (members_of (json_parse env body)) = [] then ''''
           else decoded_message (json_parse env body))"
      by simp
    have message: "Message e = (if payload_rejected (json_parse env body) then body
                                else decoded_message (json_parse env body))"
      using rejected msg by (simp add: e_def decoded_message_def)
    have status: "bitbucketAPIError.StatusCode e = StatusCode resp"
      if "\<not> payload_sets ''StatusCode'' (json_parse env body)"
      using that u by (simp add: e_def)
    have endp: "Endpoint e = endpoint"
      if "\<not> payload_sets ''Endpoint'' (json_parse env body)"
      using that u by (simp add: e_def)
    from res message status endp show ?thesis by (intro exI [of _ e]) simp
  qed
  from unread read show ?thesis by blast
qed

theorem do_api_error_witness:
  "(\<exists>e. snd (do env_repo_missing bb ''GET'' ''repositories/acme/infra'' None)
           = (Some \<lparr>StatusCode = 404, Location = '''', Body = Inr body_repo_missing\<rparr>,
              Some (APIError e)) \<and>
         Message e = ''Repository not found'' \<and>
         bitbucketAPIError.StatusCode e = 404 \<and> Endpoint e = ''repositories/acme/infra'') \<and>
   (\<exists>e. snd (do env_nested bb ''GET'' ''repositories/acme/infra'' None)
           = (Some \<lparr>StatusCode = 404, Location = '''', Body = Inr body_nested\<rparr>,
              Some (APIError e)) \<and>
         Message e = body_nested \<and>
         bitbucketAPIError.StatusCode e = 404 \<and> Endpoint e = ''repositories/acme/infra'') \<and>
   snd (do env_cut bb ''GET'' ''repositories/acme/infra'' None)
     = (None, Some (Err ''unexpected EOF''))"
proof -
  let ?req = "\<lparr>Method = ''GET'',
               URL = ''https://api.bitbucket.org/2.0//repositories/acme/infra'', ReqBody = None,
               Header = [], BasicAuth = Some (''atlantis-bot'', ''s3cret''), Close = True\<rparr>"
  let ?missing = "\<lparr>StatusCode = 404, Location = '''', Body = Inr body_repo_missing\<rparr>"
  let ?nested = "\<lparr>StatusCode = 404, Location = '''', Body = Inr body_nested\<rparr>"
  let ?cut = "\<lparr>StatusCode = 500, Location = '''', Body = Inl (Err ''unexpected EOF'')\<rparr>"
  have s: "fst (do env_repo_missing bb ''GET'' ''repositories/acme/infra'' None) = ?req # []"
    "fst (do env_nested bb ''GET'' ''repositories/acme/infra'' None) = ?req # []"
    "fst (do env_cut bb ''GET'' ''repositories/acme/infra'' None) = ?req # []"
    by (simp_all add: do_sent_eq NewRequest_def client_Do_unfold after_send_def
        redirectBehavior_def env_repo_missing_def env_nested_def env_cut_def env_quiet_def
        bb_def NewBitbucketClient_def SetBasicAuth_def Let_def)
  have d: "snd (client_Do env_repo_missing (client bb) ?req) = Inr ?missing"
    "snd (client_Do env_nested (client bb) ?req) = Inr ?nested"
    "snd (client_Do env_cut (client bb) ?req) = Inr ?cut"
    by (simp_all add: client_Do_unfold after_send_def redirectBehavior_def
        env_repo_missing_def env_nested_def env_cut_def env_quiet_def Let_def)
  have c: "StatusCode ?missing \<ge> 400 \<or> StatusCode ?missing < 200"
    "StatusCode ?nested \<ge> 400 \<or> StatusCode ?nested < 200"
    "StatusCode ?cut \<ge> 400 \<or> StatusCode ?cut < 200"
    by simp_all
  have p1: "json_parse env_repo_missing body_repo_missing
              = Some (JObject [(''type'', JString ''error''),
                               (''error'', JString ''Repository not found'')])"
    by (simp add: env_repo_missing_def env_quiet_def)
  have p2: "json_parse env_nested body_nested
              = Some (JObject [(''type'', JString ''error''),
                   (''error'', JObject [(''message'', JString ''Repository not found'')])])"
    by (simp add: env_nested_def env_quiet_def)
  have k1: "\<not> payload_rejected (json_parse env_repo_missing body_repo_missing)"
    "decoded_message (json_parse env_repo_missing body_repo_missing) = ''Repository not found''"
    "\<not> payload_sets ''StatusCode'' (json_parse env_repo_missing body_repo_missing)"
    "\<not> payload_sets ''Endpoint'' (json_parse env_repo_missing body_repo_missing)"
    by (simp_all add: p1 payload_rejected_def decoded_message_def payload_sets_def members_of_def
        mistyped_def stores_in_def field_of_def field_for_def EqualFold_def to_lower_def
        string_value_def)
  have k2: "payload_rejected (json_parse env_nested body_nested)"
    "\<not> payload_sets ''StatusCode'' (json_parse env_nested body_nested)"
    "\<not> payload_sets ''Endpoint'' (json_parse env_nested body_nested)"
    by (simp_all add: p2 payload_rejected_def payload_sets_def members_of_def
        mistyped_def stores_in_def field_of_def field_for_def EqualFold_def to_lower_def)
  from do_api_error [OF s(1) d(1) c(1)] k1
  have one: "\<exists>e. snd (do env_repo_missing bb ''GET'' ''repositories/acme/infra'' None)
           = (Some ?missing, Some (APIError e)) \<and>
         Message e = ''Repository not found'' \<and>
         bitbucketAPIError.StatusCode e = 404 \<and> Endpoint e = ''repositories/acme/infra''"
    by auto
  from do_api_error [OF s(2) d(2) c(2)] k2
  have two: "\<exists>e. snd (do env_nested bb ''GET'' ''repositories/acme/infra'' None)
           = (Some ?nested, Some (APIError e)) \<and>
         Message e = body_nested \<and>
         bitbucketAPIError.StatusCode e = 404 \<and> Endpoint e = ''repositories/acme/infra''"
    by auto
  from do_api_error [OF s(3) d(3) c(3)]
  have three: "snd (do env_cut bb ''GET'' ''repositories/acme/infra'' None)
     = (None, Some (Err ''unexpected EOF''))"
    by simp
  from one two three show ?thesis by blast
qed

text \<open>
  The case the amended claim leaves out: a payload with members \<open>StatusCode\<close> and
  \<open>Endpoint\<close> replaces the status code and the endpoint in the error.
\<close>

lemma do_payload_replaces_status:
  "snd (do env_spoof bb ''GET'' ''repositories/acme/infra'' None) =
     (Some \<lparr>StatusCode = 500, Location = '''', Body = Inr body_spoof\<rparr>,
      Some (APIError \<lparr>Message = '''', Type = '''', bitbucketAPIError.StatusCode = 200,
                      Endpoint = ''elsewhere''\<rparr>))"
  by (simp add: do_def NewRequest_def client_Do_unfold after_send_def redirectBehavior_def
      env_spoof_def env_quiet_def Let_def Unmarshal_struct_def bitbucketAPIError_member_def
      field_for_def)

section \<open>The external approval gate\<close>

lemma field_for_fold:
  assumes "field_for keys key = Some f"
  shows "EqualFold f key"
  using assms
  by (auto simp: field_for_def EqualFold_def find_Some_iff split: if_splits)

lemma externalApproval_member_approves:
  assumes "Approved (fst (externalApproval_member acc m))"
  shows "Approved (fst acc) \<or> (EqualFold ''Approved'' (fst m) \<and> snd m = JBool True)"
proof (cases "field_for [''PullRequest'', ''ApprovedBy'', ''Approved''] (fst m)")
  case None
  with assms show ?thesis by (simp add: externalApproval_member_def Let_def)
next
  case (Some f)
  from field_for_in [OF Some] have "f = ''PullRequest'' \<or> f = ''ApprovedBy'' \<or> f = ''Approved''"
    by simp
  then show ?thesis
  proof (elim disjE)
    assume "f = ''PullRequest''"
    with assms Some show ?thesis
      by (auto simp: externalApproval_member_def Let_def split: stored.splits)
  next
    assume "f = ''ApprovedBy''"
    with assms Some show ?thesis
      by (auto simp: externalApproval_member_def Let_def split: stored.splits)
  next
    assume f: "f = ''Approved''"
    with field_for_fold [OF Some] have k: "EqualFold ''Approved'' (fst m)" by simp
    show ?thesis
    proof (cases "snd m")
      case (JBool b)
      with assms Some f k show ?thesis
        by (auto simp: externalApproval_member_def Let_def)
    qed (use assms Some f in \<open>auto simp: externalApproval_member_def Let_def\<close>)
  qed
qed

lemma foldl_member_approves:
  assumes "Approved (fst (foldl externalApproval_member acc members))"
  shows "Approved (fst acc) \<or>
         list_ex (\<lambda>m. EqualFold ''Approved'' (fst m) \<and> snd m = JBool True) members"
  using assms
proof (induction members arbitrary: acc)
  case Nil
  then show ?case by simp
next
  case (Cons m members)
  from Cons.IH [of "externalApproval_member acc m"] Cons.prems
  have "Approved (fst (externalApproval_member acc m)) \<or>
        list_ex (\<lambda>m. EqualFold ''Approved'' (fst m) \<and> snd m = JBool True) members"
    by simp
  with externalApproval_member_approves [of acc m] show ?case by auto
qed

lemma Unmarshal_approves:
  assumes "Approved (fst (Unmarshal_struct parse externalApproval_member body
                            \<lparr>PullRequest = '''', ApprovedBy = '''', Approved = False\<rparr>))"
  shows "\<exists>j. parse body = Some j \<and> body_says_approved j"
proof (cases "parse body")
  case None
  with assms show ?thesis by (simp add: Unmarshal_struct_def)
next
  case (Some j)
  show ?thesis
  proof (cases j)
    case (JObject members)
    with assms Some
      foldl_member_approves [of "(\<lparr>PullRequest = '''', ApprovedBy = '''', Approved = False\<rparr>, None)" members]
    show ?thesis by (simp add: Unmarshal_struct_def body_says_approved_def)
  qed (use assms Some in \<open>simp_all add: Unmarshal_struct_def\<close>)
qed

text \<open>\<open>checkExternalApproval\<close> once the request is made.\<close>

lemma checkExternalApproval_sent:
  assumes \<open>NewRequest env ''POST'' (ApprovalURL a)
             (Some (''{"repo_owner": "'' @ Owner repo @ ''", "repo_name": "'' @ Name repo @
                    ''", "pull_request": '' @ fmt_d (Num pull) @ ''}'')) = Inr req0\<close>
  shows \<open>checkExternalApproval env a ctx repo pull =
     (case snd (client_Do env \<lparr>Jar = False, Timeout = 1000000000\<rparr>
             ((Header_Set req0 ''Content-Type'' ''application/json'')\<lparr>Close := True\<rparr>)) of
        Inl err \<Rightarrow> Returns (False, Some err)
      | Inr resp \<Rightarrow>
          if StatusCode resp = 200 then
            (case Body resp of
               Inl err \<Rightarrow> Returns (False, Some err)
             | Inr body \<Rightarrow>
                 Returns
                   (snd (Unmarshal_struct (json_parse env) externalApproval_member body
                           \<lparr>PullRequest = '''', ApprovedBy = '''', Approved = False\<rparr>) = None \<and>
                    Approved (fst (Unmarshal_struct (json_parse env) externalApproval_member body
                           \<lparr>PullRequest = '''', ApprovedBy = '''', Approved = False\<rparr>)), None))
          else Returns (False, None))\<close>
  using assms by (simp add: checkExternalApproval_def Let_def split: sum.splits)

text \<open>\<open>Execute\<close> once the internal gate is passed and the external one is asked.\<close>

lemma Execute_external:
  assumes "RequireExternalApproval a"
    and "RequireApproval a \<longrightarrow>
           VCSClient_PullIsApproved env (BaseRepo ctx) (Pull ctx) (VCSHost ctx) = (True, None)"
  shows "Execute env rest a ctx =
     (case checkExternalApproval env a ctx (BaseRepo ctx) (Pull ctx) of
        Panic \<Rightarrow> Panic
      | Returns r \<Rightarrow>
          (case snd r of
             Some e \<Rightarrow>
               Returns (response_Error (Wrap e ''checking if pull request was approved (external)''))
           | None \<Rightarrow>
               if \<not> fst r
               then Returns (response_Failure
                      ''Pull request must be approved before running apply. (external)'')
               else Returns (rest ctx)))"
  using assms by (cases "RequireApproval a") (simp_all add: Execute_def Let_def)

text \<open>
  The gate once its request is made. The internal gate is passed, the external one is
  asked and \<open>http.NewRequest\<close> has made the request. Then for every response of the
  endpoint that is not a 200 with a body marking the pull request as approved, and
  whose body, if the status is 200, has been read, the result of \<open>Execute\<close> is the
  failure of the external approval, with no error. The result at this gate is an error
  when the endpoint cannot be reached or reading the body fails, and in no other case:
  otherwise it is the failure, or the command goes on.
\<close>

lemma external_approval_fail_closed:
  assumes \<open>RequireExternalApproval a\<close>
    and \<open>RequireApproval a \<longrightarrow>
           VCSClient_PullIsApproved env (BaseRepo ctx) (Pull ctx) (VCSHost ctx) = (True, None)\<close>
    and \<open>NewRequest env ''POST'' (ApprovalURL a)
           (Some (''{"repo_owner": "'' @ Owner (BaseRepo ctx) @ ''", "repo_name": "'' @
                  Name (BaseRepo ctx) @ ''", "pull_request": '' @ fmt_d (Num (Pull ctx)) @ ''}''))
           = Inr req0\<close>
    and \<open>answer = snd (client_Do env \<lparr>Jar = False, Timeout = 1000000000\<rparr>
                    ((Header_Set req0 ''Content-Type'' ''application/json'')\<lparr>Close := True\<rparr>))\<close>
  shows \<open>(\<forall>resp. answer = Inr resp \<and> \<not> marks_approved env resp \<and>
                 (StatusCode resp = 200 \<longrightarrow> (\<exists>body. Body resp = Inr body)) \<longrightarrow>
            Execute env rest a ctx =
              Returns (response_Failure
                ''Pull request must be approved before running apply. (external)'')) \<and>
         (\<forall>err. answer = Inl err \<or>
                 (\<exists>resp. answer = Inr resp \<and> StatusCode resp = 200 \<and> Body resp = Inl err) \<longrightarrow>
            Execute env rest a ctx =
              Returns (response_Error
                (Wrap err ''checking if pull request was approved (external)''))) \<and>
         (\<forall>resp. answer = Inr resp \<and>
                 (StatusCode resp = 200 \<longrightarrow> (\<exists>body. Body resp = Inr body)) \<longrightarrow>
            Execute env rest a ctx =
              Returns (response_Failure
                ''Pull request must be approved before running apply. (external)'') \<or>
            Execute env rest a ctx = Returns (rest ctx))\<close>
proof -
  note ex = Execute_external [OF assms(1,2), of rest]
  note ch = checkExternalApproval_sent [OF assms(3), of ctx, folded assms(4)]
  have denied: "Execute env rest a ctx =
      Returns (response_Failure ''Pull request must be approved before running apply. (external)'')"
    if "answer = Inr resp" and "\<not> marks_approved env resp"
      and "StatusCode resp = 200 \<longrightarrow> (\<exists>body. Body resp = Inr body)" for resp
  proof (cases "StatusCode resp = 200")
    case False
    with that(1) show ?thesis by (simp add: ex ch)
  next
    case True
    with that(3) obtain body where body: "Body resp = Inr body" by blast
    let ?r = "Unmarshal_struct (json_parse env) externalApproval_member body
                \<lparr>PullRequest = '''', ApprovedBy = '''', Approved = False\<rparr>"
    have "\<not> Approved (fst ?r)"
    proof
      assume "Approved (fst ?r)"
      from Unmarshal_approves [OF this] True body have "marks_approved env resp"
        by (auto simp: marks_approved_def)
      with that(2) show False by simp
    qed
    with that(1) True body show ?thesis by (simp add: ex ch)
  qed
  have failed: "Execute env rest a ctx =
      Returns (response_Error (Wrap err ''checking if pull request was approved (external)''))"
    if "answer = Inl err \<or>
        (\<exists>resp. answer = Inr resp \<and> StatusCode resp = 200 \<and> Body resp = Inl err)" for err
    using that by (auto simp: ex ch)
  have no_error: "Execute env rest a ctx =
        Returns (response_Failure ''Pull request must be approved before running apply. (external)'') \<or>
      Execute env rest a ctx = Returns (rest ctx)"
    if "answer = Inr resp" and "StatusCode resp = 200 \<longrightarrow> (\<exists>body. Body resp = Inr body)" for resp
    using that by (auto simp: ex ch)
  from denied failed no_error show ?thesis by blast
qed

lemma NewRequest_accepts:
  assumes "NewRequest_err env method url = None"
  shows "NewRequest env method url body =
           Inr \<lparr>Method = method, URL = url, ReqBody = body, Header = [], BasicAuth = None,
                Close = False\<rparr>"
  using assms by (simp add: NewRequest_def)

lemma external_approval_examples:
  \<open>Execute env_denied rest0 executor0 ctx0 =
     Returns (response_Failure ''Pull request must be approved before running apply. (external)'') \<and>
   Execute env_garbled rest0 executor0 ctx0 =
     Returns (response_Failure ''Pull request must be approved before running apply. (external)'') \<and>
   Execute env_unavailable rest0 executor0 ctx0 =
     Returns (response_Failure ''Pull request must be approved before running apply. (external)'') \<and>
   Execute env_quiet rest0 executor0 ctx0 =
     Returns (response_Error (Wrap (Err ''dial tcp: connection refused'')
                ''checking if pull request was approved (external)''))\<close>
proof -
  have ext: "RequireExternalApproval executor0"
    by (simp add: executor0_def)
  have int: "RequireApproval executor0 \<longrightarrow>
      VCSClient_PullIsApproved env (BaseRepo ctx0) (Pull ctx0) (VCSHost ctx0) = (True, None)" for env
    by (simp add: executor0_def)
  have accepts: "NewRequest_err env_denied m u = None" "NewRequest_err env_garbled m u = None"
    "NewRequest_err env_unavailable m u = None" "NewRequest_err env_quiet m u = None" for m u
    by (simp_all add: env_denied_def env_garbled_def env_unavailable_def env_quiet_def)
  note denied = external_approval_fail_closed
    [OF ext int NewRequest_accepts [OF accepts(1)] refl, of rest0]
  note garbled = external_approval_fail_closed
    [OF ext int NewRequest_accepts [OF accepts(2)] refl, of rest0]
  note unavailable = external_approval_fail_closed
    [OF ext int NewRequest_accepts [OF accepts(3)] refl, of rest0]
  note unreachable = external_approval_fail_closed
    [OF ext int NewRequest_accepts [OF accepts(4)] refl, of rest0]
  have d1: "snd (client_Do env_denied c req) = Inr \<lparr>StatusCode = 200, Location = '''', Body = Inr body_denied\<rparr>" for c req
    by (simp add: client_Do_unfold after_send_def redirectBehavior_def env_denied_def env_quiet_def)
  have d2: "\<not> marks_approved env_denied \<lparr>StatusCode = 200, Location = '''', Body = Inr body_denied\<rparr>"
    by (simp add: marks_approved_def env_denied_def env_quiet_def body_says_approved_def)
  have g1: "snd (client_Do env_garbled c req) = Inr \<lparr>StatusCode = 200, Location = '''', Body = Inr ''<html>''\<rparr>" for c req
    by (simp add: client_Do_unfold after_send_def redirectBehavior_def env_garbled_def env_quiet_def)
  have g2: "\<not> marks_approved env_garbled \<lparr>StatusCode = 200, Location = '''', Body = Inr ''<html>''\<rparr>"
    by (simp add: marks_approved_def env_garbled_def env_quiet_def)
  have u1: "snd (client_Do env_unavailable c req) = Inr \<lparr>StatusCode = 500, Location = '''', Body = Inr ''''\<rparr>" for c req
    by (simp add: client_Do_unfold after_send_def redirectBehavior_def env_unavailable_def env_quiet_def)
  have u2: "\<not> marks_approved env_unavailable \<lparr>StatusCode = 500, Location = '''', Body = Inr ''''\<rparr>"
    by (simp add: marks_approved_def)
  have q1: "snd (client_Do env_quiet c req) = Inl (Err ''dial tcp: connection refused'')" for c req
    by (simp add: client_Do_unfold after_send_def env_quiet_def)
  have r1: "Execute env_denied rest0 executor0 ctx0 =
     Returns (response_Failure ''Pull request must be approved before running apply. (external)'')"
    using denied d1 d2 by simp
  have r2: "Execute env_garbled rest0 executor0 ctx0 =
     Returns (response_Failure ''Pull request must be approved before running apply. (external)'')"
    using garbled g1 g2 by simp
  have r3: "Execute env_unavailable rest0 executor0 ctx0 =
     Returns (response_Failure ''Pull request must be approved before running apply. (external)'')"
    using unavailable u1 u2 by simp
  have r4: "Execute env_quiet rest0 executor0 ctx0 =
     Returns (response_Error (Wrap (Err ''dial tcp: connection refused'')
                ''checking if pull request was approved (external)''))"
    using unreachable q1 by simp
  from r1 r2 r3 r4 show ?thesis by simp
qed

text \<open>
  C2. The claim names a request that cannot be constructed among the failures that
  yield a top-level error. At an approval URL that \<open>http.NewRequest\<close> rejects, with
  the external approval required, \<open>checkExternalApproval\<close> sets a header on the nil
  request before it tests the error, and \<open>Execute\<close> panics: it returns neither an
  error nor a failure.
\<close>

theorem Execute_rejected_url_panics:
  "NewRequest_err env_bad_url ''POST'' (ApprovalURL executor_bad_url)
     = Some (Err ''parse ://approval.local/check: missing protocol scheme'') \<and>
   checkExternalApproval env_bad_url executor_bad_url ctx0 (BaseRepo ctx0) (Pull ctx0) = Panic \<and>
   Execute env_bad_url rest0 executor_bad_url ctx0 = Panic"
  by (simp add: Execute_def checkExternalApproval_def NewRequest_def env_bad_url_def env_quiet_def
      executor_bad_url_def Let_def)


end
